theory Spec2Isabelle
  imports Complex_Main "HOL-Library.Char_ord" "HOL-Library.Multiset" "HOL-Library.Sublist"
begin

section \<open>Strings and characters\<close>

text \<open>
  Source strings are modelled as \<open>string\<close>; every character the code inspects
  (letters, digits, the password symbols, white space, sign and dot of a number) is ASCII.
\<close>

definition isLower :: "char \<Rightarrow> bool" where
  \<comment> \<open>the regular-expression class \<^verbatim>\<open>[a-z]\<close>\<close>
  "isLower c \<longleftrightarrow> CHR ''a'' \<le> c \<and> c \<le> CHR ''z''"

definition isUpper :: "char \<Rightarrow> bool" where
  \<comment> \<open>\<^verbatim>\<open>[A-Z]\<close>\<close>
  "isUpper c \<longleftrightarrow> CHR ''A'' \<le> c \<and> c \<le> CHR ''Z''"

definition isDigit :: "char \<Rightarrow> bool" where
  \<comment> \<open>\<^verbatim>\<open>\d\<close>, which is \<^verbatim>\<open>[0-9]\<close> in a JavaScript regular expression\<close>
  "isDigit c \<longleftrightarrow> CHR ''0'' \<le> c \<and> c \<le> CHR ''9''"

definition isSymbol :: "char \<Rightarrow> bool" where
  \<comment> \<open>\<^verbatim>\<open>[@$!%*?&]\<close>\<close>
  "isSymbol c \<longleftrightarrow> c \<in> set ''@$!%*?&''"

definition isPasswordChar :: "char \<Rightarrow> bool" where
  \<comment> \<open>\<^verbatim>\<open>[A-Za-z\d@$!%*?&]\<close>\<close>
  "isPasswordChar c \<longleftrightarrow> isUpper c \<or> isLower c \<or> isDigit c \<or> isSymbol c"

definition isLineTerminator :: "char \<Rightarrow> bool" where
  \<comment> \<open>the characters the regular-expression dot does not match\<close>
  "isLineTerminator c \<longleftrightarrow> c = CHR 0x0A \<or> c = CHR 0x0D"

section \<open>Signup: the password rule\<close>

text \<open>
  \<^verbatim>\<open>(?=.*X)\<close> at the start of the input: some prefix free of line terminators is
  followed by a character of class \<open>X\<close>.
\<close>

fun lookahead :: "(char \<Rightarrow> bool) \<Rightarrow> string \<Rightarrow> bool" where
  "lookahead X [] = False"
| "lookahead X (c # cs) = (X c \<or> (\<not> isLineTerminator c \<and> lookahead X cs))"

definition validatePassword :: "string \<Rightarrow> bool" where
  \<comment> \<open>\<^verbatim>\<open>/^(?=.*[a-z])(?=.*[A-Z])(?=.*\d)(?=.*[@$!%*?&])[A-Za-z\d@$!%*?&]{10}$/.test(password)\<close>\<close>
  "validatePassword password \<longleftrightarrow>
     lookahead isLower password \<and> lookahead isUpper password \<and>
     lookahead isDigit password \<and> lookahead isSymbol password \<and>
     length password = 10 \<and> list_all isPasswordChar password"

section \<open>The JavaScript primitives the screens use\<close>

text \<open>
  A JavaScript number: not-a-number, an infinity (\<open>True\<close> for the negative one), or a
  finite value. Finite values are kept exact and the two zeros are one value: the code
  looks only at the not-a-number test, the zero test and the value it passes on.
\<close>

datatype jsnum = NaN | Infinity bool | Fin rat

definition isNaN :: "jsnum \<Rightarrow> bool" where
  "isNaN x \<longleftrightarrow> x = NaN"

definition truthyNum :: "jsnum \<Rightarrow> bool" where
  \<comment> \<open>a number in a boolean position: false for not-a-number and for zero\<close>
  "truthyNum x \<longleftrightarrow> x \<noteq> NaN \<and> x \<noteq> Fin 0"

definition nonNegative :: "jsnum \<Rightarrow> bool" where
  \<comment> \<open>the comparison \<^verbatim>\<open>x >= 0\<close>\<close>
  "nonNegative x = (case x of NaN \<Rightarrow> False | Infinity neg \<Rightarrow> \<not> neg | Fin r \<Rightarrow> 0 \<le> r)"

definition truthyStr :: "string \<Rightarrow> bool" where
  \<comment> \<open>a string in a boolean position: false for the empty string\<close>
  "truthyStr s \<longleftrightarrow> s \<noteq> []"

definition isWhiteSpace :: "char \<Rightarrow> bool" where
  \<comment> \<open>white space and line terminators: TAB, LF, VT, FF, CR, SP, NBSP\<close>
  "isWhiteSpace c \<longleftrightarrow> c \<in> {CHR 0x09, CHR 0x0A, CHR 0x0B, CHR 0x0C, CHR 0x0D, CHR 0x20, CHR 0xA0}"

definition trim :: "string \<Rightarrow> string" where
  \<comment> \<open>\<^verbatim>\<open>String.prototype.trim\<close>\<close>
  "trim s = rev (dropWhile isWhiteSpace (rev (dropWhile isWhiteSpace s)))"

definition digitVal :: "char \<Rightarrow> nat" where
  "digitVal c = of_char c - of_char CHR ''0''"

definition digitsVal :: "string \<Rightarrow> nat" where
  \<comment> \<open>the value of a string of decimal digits\<close>
  "digitsVal ds = foldl (\<lambda>n c. 10 * n + digitVal c) 0 ds"

definition hexVal :: "char \<Rightarrow> nat option" where
  "hexVal c =
     (if isDigit c then Some (digitVal c)
      else if CHR ''a'' \<le> c \<and> c \<le> CHR ''f'' then Some (of_char c - of_char CHR ''a'' + 10)
      else if CHR ''A'' \<le> c \<and> c \<le> CHR ''F'' then Some (of_char c - of_char CHR ''A'' + 10)
      else None)"

fun radixVal :: "nat \<Rightarrow> nat \<Rightarrow> string \<Rightarrow> nat option" where
  \<comment> \<open>the value of a string of digits below the radix, none if a character is no such digit\<close>
  "radixVal r n [] = Some n"
| "radixVal r n (c # cs) =
     (case hexVal c of
        None \<Rightarrow> None
      | Some d \<Rightarrow> if d < r then radixVal r (r * n + d) cs else None)"

definition pow10 :: "int \<Rightarrow> rat" where
  "pow10 e = (if 0 \<le> e then 10 ^ nat e else 1 / 10 ^ nat (- e))"

definition exponentPart :: "string \<Rightarrow> int \<times> string" where
  \<comment> \<open>an optional \<^verbatim>\<open>e\<close> or \<^verbatim>\<open>E\<close>, an optional sign, one or more digits: its value and the
     rest; without digits nothing is consumed\<close>
  "exponentPart s =
     (case s of
        [] \<Rightarrow> (0, s)
      | c # t \<Rightarrow>
          if c = CHR ''e'' \<or> c = CHR ''E'' then
            (let (neg, u) = (case t of
                               [] \<Rightarrow> (False, t)
                             | d # u \<Rightarrow> if d = CHR ''-'' then (True, u)
                                        else if d = CHR ''+'' then (False, u) else (False, t));
                 ds = takeWhile isDigit u
             in if ds = [] then (0, s)
                else ((if neg then - int (digitsVal ds) else int (digitsVal ds)),
                      dropWhile isDigit u))
          else (0, s))"

definition unsignedDecimal :: "string \<Rightarrow> (rat \<times> string) option" where
  \<comment> \<open>the longest prefix that is an unsigned decimal literal (digits, an optional
     fraction, an optional exponent; or a dot and digits): its value and the rest\<close>
  "unsignedDecimal s =
     (let ip = takeWhile isDigit s; r1 = dropWhile isDigit s;
          (fp, r2) = (case r1 of
                        [] \<Rightarrow> ([], r1)
                      | c # t \<Rightarrow>
                          if c = CHR ''.'' \<and> (ip \<noteq> [] \<or> takeWhile isDigit t \<noteq> [])
                          then (takeWhile isDigit t, dropWhile isDigit t)
                          else ([], r1))
      in if ip = [] \<and> fp = [] then None
         else (let (e, r3) = exponentPart r2
               in Some (of_nat (digitsVal (ip @ fp)) / 10 ^ length fp * pow10 e, r3)))"

definition signed :: "string \<Rightarrow> bool \<times> string" where
  \<comment> \<open>an optional sign: whether it is a minus, and the rest\<close>
  "signed s =
     (case s of
        [] \<Rightarrow> (False, s)
      | c # t \<Rightarrow> if c = CHR ''-'' then (True, t) else if c = CHR ''+'' then (False, t)
                 else (False, s))"

definition parseFloat :: "string \<Rightarrow> jsnum" where
  \<comment> \<open>the global \<^verbatim>\<open>parseFloat\<close>: leading white space is skipped, the longest prefix that
     is a decimal literal is read, and what follows it is ignored\<close>
  "parseFloat s =
     (let (neg, u) = signed (dropWhile isWhiteSpace s)
      in if take 8 u = ''Infinity'' then Infinity neg
         else (case unsignedDecimal u of
                 None \<Rightarrow> NaN
               | Some (v, _) \<Rightarrow> Fin (if neg then - v else v)))"

definition Number :: "string \<Rightarrow> jsnum" where
  \<comment> \<open>\<^verbatim>\<open>Number(string)\<close>: the trimmed string is empty (zero), a literal with a prefix
     \<^verbatim>\<open>0x\<close>, \<^verbatim>\<open>0o\<close>, \<^verbatim>\<open>0b\<close>, or a decimal literal that is the whole string\<close>
  "Number s =
     (let t = trim s
      in if t = [] then Fin 0
         else if take 2 t \<in> {''0x'', ''0X''} \<or> take 2 t \<in> {''0o'', ''0O''} \<or> take 2 t \<in> {''0b'', ''0B''}
         then (let r = (if take 2 t \<in> {''0x'', ''0X''} then 16
                        else if take 2 t \<in> {''0o'', ''0O''} then 8 else 2)
               in if drop 2 t = [] then NaN
                  else (case radixVal r 0 (drop 2 t) of
                          None \<Rightarrow> NaN
                        | Some n \<Rightarrow> Fin (of_nat n)))
         else (let (neg, u) = signed t
               in if u = ''Infinity'' then Infinity neg
                  else (case unsignedDecimal u of
                          Some (v, []) \<Rightarrow> Fin (if neg then - v else v)
                        | _ \<Rightarrow> NaN)))"

section \<open>Budget items and their sections\<close>

datatype budget_type = income | outcome

record BudgetItem =
  id :: string
  title :: string
  amount :: jsnum
  created_at :: string
  type :: budget_type
  currency :: string

definition incomeItems :: "BudgetItem list \<Rightarrow> BudgetItem list" where
  "incomeItems items = filter (\<lambda>item. BudgetItem.type item = income) items"

definition outcomeItems :: "BudgetItem list \<Rightarrow> BudgetItem list" where
  "outcomeItems items = filter (\<lambda>item. BudgetItem.type item = outcome) items"

definition sections :: "BudgetItem list \<Rightarrow> (string \<times> BudgetItem list) list" where
  \<comment> \<open>the budget screen; a section \<^verbatim>\<open>{ title, data }\<close> is the pair of its title and rows\<close>
  "sections items = [(''Income'', incomeItems items), (''Outcome'', outcomeItems items)]"

definition budgetSections :: "BudgetItem list \<Rightarrow> (string \<times> BudgetItem list) list" where
  \<comment> \<open>the same derivation in the task-list screen's budget tab\<close>
  "budgetSections budgetItems =
     [(''Income'', incomeItems budgetItems), (''Outcome'', outcomeItems budgetItems)]"

section \<open>Tasks and their sections\<close>

text \<open>
  A task row. The list screen and the edit screen each declare the fields they read of
  the same row; \<open>None\<close> is an absent (undefined or null) optional field.
\<close>

record Task =
  id :: string
  title :: string
  description :: "string option"
  created_at :: string
  completed :: bool
  deadline :: "string option"
  category :: "string option"

text \<open>
  \<^verbatim>\<open>new Date(deadline).getTime()\<close> belongs to the runtime: the parameter \<open>getTime\<close> gives
  the milliseconds of a date string, \<open>None\<close> when the string is no date (the number is
  then not-a-number, and so is everything computed from it). \<open>now\<close> is the reading of
  the clock, in milliseconds; one rendering is modelled at one reading.
\<close>

definition getDaysRemaining :: "(string \<Rightarrow> int option) \<Rightarrow> int \<Rightarrow> string \<Rightarrow> int option" where
  "getDaysRemaining getTime now deadlineStr =
     (case getTime deadlineStr of
        None \<Rightarrow> None
      | Some dueDate \<Rightarrow>
          (let diffTime = dueDate - now
           in Some \<lceil>(of_int diffTime :: rat) / (1000 * 60 * 60 * 24)\<rceil>))"

definition numLe :: "int option \<Rightarrow> int \<Rightarrow> bool" where
  \<comment> \<open>\<^verbatim>\<open><=\<close> with a number that may be not-a-number on the left: false then\<close>
  "numLe x k = (case x of None \<Rightarrow> False | Some n \<Rightarrow> n \<le> k)"

definition numGt :: "int option \<Rightarrow> int \<Rightarrow> bool" where
  \<comment> \<open>\<^verbatim>\<open>>\<close> with a number that may be not-a-number on the left: false then\<close>
  "numGt x k = (case x of None \<Rightarrow> False | Some n \<Rightarrow> n > k)"

definition ongoingTasks :: "Task list \<Rightarrow> Task list" where
  "ongoingTasks tasks = filter (\<lambda>task. \<not> Task.completed task) tasks"

definition completedTasks :: "Task list \<Rightarrow> Task list" where
  "completedTasks tasks = filter (\<lambda>task. Task.completed task) tasks"

definition isUrgentTask :: "(string \<Rightarrow> int option) \<Rightarrow> int \<Rightarrow> Task \<Rightarrow> bool" where
  \<comment> \<open>\<^verbatim>\<open>task.deadline && getDaysRemaining(task.deadline) <= 3\<close>\<close>
  "isUrgentTask getTime now task =
     (case Task.deadline task of
        None \<Rightarrow> False
      | Some d \<Rightarrow> truthyStr d \<and> numLe (getDaysRemaining getTime now d) 3)"

definition isOngoingTask :: "(string \<Rightarrow> int option) \<Rightarrow> int \<Rightarrow> Task \<Rightarrow> bool" where
  \<comment> \<open>\<^verbatim>\<open>!task.deadline || getDaysRemaining(task.deadline) > 3\<close>\<close>
  "isOngoingTask getTime now task =
     (case Task.deadline task of
        None \<Rightarrow> True
      | Some d \<Rightarrow> \<not> truthyStr d \<or> numGt (getDaysRemaining getTime now d) 3)"

definition taskSections ::
  "(string \<Rightarrow> int option) \<Rightarrow> int \<Rightarrow> Task list \<Rightarrow> (string \<times> Task list) list" where
  "taskSections getTime now tasks =
     [(''Urgent'', filter (isUrgentTask getTime now) (ongoingTasks tasks)),
      (''Ongoing'', filter (isOngoingTask getTime now) (ongoingTasks tasks)),
      (''Done'', completedTasks tasks)]"

section \<open>The remote store, seen from a screen\<close>

text \<open>
  A value sent in a row, and a row or patch as the object literal of the source: the
  list of its fields in order.
\<close>

datatype jsval = JNull | JBool bool | JNum jsnum | JStr string

type_synonym fields = "(string \<times> jsval) list"

definition typeStr :: "budget_type \<Rightarrow> string" where
  "typeStr t = (case t of income \<Rightarrow> ''income'' | outcome \<Rightarrow> ''outcome'')"

text \<open>
  The requests a screen sends; the first argument of a table request is the table.
  \<^item> \<open>SelectAll c\<close>: \<^verbatim>\<open>from(c).select('*').order('created_at', { ascending: false })\<close>
  \<^item> \<open>SelectSingle c i\<close>: \<^verbatim>\<open>from(c).select('*').eq('id', i).single()\<close>
  \<^item> \<open>Insert c row\<close>: \<^verbatim>\<open>from(c).insert(row)\<close>
  \<^item> \<open>Update c patch i\<close>: \<^verbatim>\<open>from(c).update(patch).eq('id', i)\<close>
  \<^item> \<open>Delete c i\<close>: \<^verbatim>\<open>from(c).delete().eq('id', i)\<close>
  \<^item> \<open>GetUser\<close>: \<^verbatim>\<open>auth.getUser()\<close>
\<close>

datatype request =
    SelectAll string
  | SelectSingle string string
  | Insert string fields
  | Update string fields string
  | Delete string string
  | GetUser

datatype navigation = Back | Replace string | Push string

datatype callback = RouterBack | ClearError

text \<open>
  What a handler does besides changing the state of its screen, in the order it does it:
  a request to the remote store, a line on the console, an alert box, a navigation, a
  timer started with \<^verbatim>\<open>setTimeout\<close> (its callback and its delay in milliseconds), a
  preference written with \<^verbatim>\<open>AsyncStorage.setItem\<close>.
\<close>

datatype event =
    Request request
  | ConsoleError string
  | Alert string string
  | Navigate navigation
  | SetTimeout callback nat
  | SetItem string string

text \<open>
  The answer \<^verbatim>\<open>{ data, error }\<close> to a read: \<open>None\<close> is null, an error is its message.
  The answer to a write is its \<^verbatim>\<open>error\<close> alone. An answer is an argument of the handler
  that awaits it.
\<close>

record 'a answer =
  data :: "'a option"
  error :: "string option"

definition requests :: "event list \<Rightarrow> request list" where
  \<comment> \<open>the requests among the events, in order\<close>
  "requests evs = concat (map (\<lambda>e. case e of Request r \<Rightarrow> [r] | _ \<Rightarrow> []) evs)"

section \<open>The list screens\<close>

datatype tab = TasksTab | BudgetTab

record TaskList =
  activeTab :: tab
  tasks :: "Task list"
  budgetItems :: "BudgetItem list"
  isDark :: bool

definition fetchTasks :: "Task list answer \<Rightarrow> TaskList \<Rightarrow> event list \<times> TaskList" where
  "fetchTasks a s =
     (if answer.error a \<noteq> None
      then ([Request (SelectAll ''tasks''), ConsoleError ''Error fetching tasks:''], s)
      else ([Request (SelectAll ''tasks'')],
            s\<lparr>TaskList.tasks := (case answer.data a of None \<Rightarrow> [] | Some d \<Rightarrow> d)\<rparr>))"

definition TaskList_fetchBudgetItems ::
  "BudgetItem list answer \<Rightarrow> TaskList \<Rightarrow> event list \<times> TaskList" where
  "TaskList_fetchBudgetItems a s =
     (if answer.error a \<noteq> None
      then ([Request (SelectAll ''budget_items''), ConsoleError ''Error fetching budget items:''], s)
      else ([Request (SelectAll ''budget_items'')],
            s\<lparr>TaskList.budgetItems := (case answer.data a of None \<Rightarrow> [] | Some d \<Rightarrow> d)\<rparr>))"

definition toggleTaskCompletion ::
  "string option \<Rightarrow> Task list answer \<Rightarrow> string \<Rightarrow> bool \<Rightarrow> TaskList \<Rightarrow> event list \<times> TaskList" where
  \<comment> \<open>\<open>err\<close> answers the update, \<open>a\<close> the read that follows a successful update\<close>
  "toggleTaskCompletion err a taskId isCompleted s =
     (let upd = Request (Update ''tasks'' [(''completed'', JBool (\<not> isCompleted))] taskId)
      in if err \<noteq> None then ([upd, ConsoleError ''Error updating task:''], s)
         else (let (evs, s') = fetchTasks a s in (upd # evs, s')))"

definition toggleBudgetItemType ::
  "string option \<Rightarrow> BudgetItem list answer \<Rightarrow> string \<Rightarrow> budget_type \<Rightarrow> TaskList
     \<Rightarrow> event list \<times> TaskList" where
  "toggleBudgetItemType err a i currentType s =
     (let upd = Request (Update ''budget_items''
                  [(''type'', JStr (if currentType = income then ''outcome'' else ''income''))] i)
      in if err \<noteq> None then ([upd, ConsoleError ''Error updating budget item:''], s)
         else (let (evs, s') = TaskList_fetchBudgetItems a s in (upd # evs, s')))"

definition deleteTask :: "string option \<Rightarrow> string \<Rightarrow> TaskList \<Rightarrow> event list \<times> TaskList" where
  "deleteTask err taskId s =
     (if err \<noteq> None
      then ([Request (Delete ''tasks'' taskId), ConsoleError ''Error deleting task:''], s)
      else ([Request (Delete ''tasks'' taskId)],
            s\<lparr>TaskList.tasks := filter (\<lambda>task. Task.id task \<noteq> taskId) (TaskList.tasks s)\<rparr>))"

definition deleteBudgetItem :: "string option \<Rightarrow> string \<Rightarrow> TaskList \<Rightarrow> event list \<times> TaskList" where
  "deleteBudgetItem err i s =
     (if err \<noteq> None
      then ([Request (Delete ''budget_items'' i), ConsoleError ''Error deleting budget item:''], s)
      else ([Request (Delete ''budget_items'' i)],
            s\<lparr>TaskList.budgetItems :=
                filter (\<lambda>item. BudgetItem.id item \<noteq> i) (TaskList.budgetItems s)\<rparr>))"

record BudgetScreen =
  items :: "BudgetItem list"
  isDark :: bool
  userCurrency :: string

definition fetchBudgetItems ::
  "BudgetItem list answer \<Rightarrow> BudgetScreen \<Rightarrow> event list \<times> BudgetScreen" where
  "fetchBudgetItems a s =
     (if answer.error a \<noteq> None
      then ([Request (SelectAll ''budget_items''), ConsoleError ''Error fetching items:''], s)
      else ([Request (SelectAll ''budget_items'')],
            s\<lparr>BudgetScreen.items := (case answer.data a of None \<Rightarrow> [] | Some d \<Rightarrow> d)\<rparr>))"

definition toggleItemType ::
  "string option \<Rightarrow> BudgetItem list answer \<Rightarrow> string \<Rightarrow> budget_type \<Rightarrow> BudgetScreen
     \<Rightarrow> event list \<times> BudgetScreen" where
  "toggleItemType err a i currentType s =
     (let upd = Request (Update ''budget_items''
                  [(''type'', JStr (if currentType = income then ''outcome'' else ''income''))] i)
      in if err = None then (let (evs, s') = fetchBudgetItems a s in (upd # evs, s'))
         else ([upd], s))"

definition deleteItem :: "string option \<Rightarrow> string \<Rightarrow> BudgetScreen \<Rightarrow> event list \<times> BudgetScreen" where
  "deleteItem err i s =
     (if err = None
      then ([Request (Delete ''budget_items'' i)],
            s\<lparr>BudgetScreen.items := filter (\<lambda>item. BudgetItem.id item \<noteq> i) (BudgetScreen.items s)\<rparr>)
      else ([Request (Delete ''budget_items'' i)], s))"

section \<open>The create screens\<close>

record AddTaskScreen =
  title :: string
  category :: string
  optional :: bool
  deadline :: string
  loading :: bool
  isDark :: bool


record Currency =
  code :: string
  symbol :: string
  name :: string

record AddBudgetScreen =
  title :: string
  amount :: string
  type :: budget_type
  currency :: Currency
  isDark :: bool
  loading :: bool
  error :: string
  showCurrencyPicker :: bool

definition handleAddBudgetItem ::
  "string option \<Rightarrow> string option \<Rightarrow> AddBudgetScreen \<Rightarrow> event list \<times> AddBudgetScreen" where
  \<comment> \<open>\<open>user\<close> answers \<^verbatim>\<open>getUser\<close> with the id of the user, \<open>supabaseError\<close> answers the insert\<close>
  "handleAddBudgetItem user supabaseError s0 =
     (let s = s0\<lparr>AddBudgetScreen.error := []\<rparr>
      in if \<not> truthyStr (trim (AddBudgetScreen.title s))
         then ([], s\<lparr>AddBudgetScreen.error := ''Please enter a title''\<rparr>)
         else if \<not> truthyStr (AddBudgetScreen.amount s) \<or> isNaN (Number (AddBudgetScreen.amount s))
         then ([], s\<lparr>AddBudgetScreen.error := ''Please enter a valid amount''\<rparr>)
         else (case user of
                 None \<Rightarrow>
                   ([Request GetUser],
                    s\<lparr>AddBudgetScreen.error := ''Not authenticated'',
                      AddBudgetScreen.loading := False\<rparr>)
               | Some uid \<Rightarrow>
                   (let ins = Request (Insert ''budget_items''
                                [(''title'', JStr (AddBudgetScreen.title s)),
                                 (''amount'', JNum (parseFloat (AddBudgetScreen.amount s))),
                                 (''type'', JStr (typeStr (AddBudgetScreen.type s))),
                                 (''currency'', JStr (Currency.code (AddBudgetScreen.currency s))),
                                 (''user_id'', JStr uid)])
                    in (case supabaseError of
                          Some message \<Rightarrow>
                            ([Request GetUser, ins],
                             s\<lparr>AddBudgetScreen.error := message,
                               AddBudgetScreen.loading := False\<rparr>)
                        | None \<Rightarrow>
                            ([Request GetUser, ins, Navigate (Replace ''/(tabs)'')],
                             s\<lparr>AddBudgetScreen.title := [], AddBudgetScreen.amount := [],
                               AddBudgetScreen.loading := False\<rparr>)))))"

section \<open>The edit screens\<close>

text \<open>What an edit screen renders: a line of text alone, or its form.\<close>

datatype view = TextOnly string | Form

text \<open>
  How the asynchronous handler of an activation ends: it returns, or an exception is
  thrown in it and escapes as the rejection of its promise, which nothing catches. Both
  carry the events and the state reached until then.
\<close>

datatype 'a completion = Returns 'a | Throws string 'a

definition reached :: "'a completion \<Rightarrow> 'a" where
  "reached r = (case r of Returns x \<Rightarrow> x | Throws m x \<Rightarrow> x)"

subsection \<open>The budget edit screen with messages\<close>

text \<open>
  The row this screen reads is not typed in the source; its amount is null (\<open>None\<close>)
  when the column holds no number.
\<close>

record ItemRow =
  title :: string
  amount :: "jsnum option"
  type :: budget_type

record EditBudgetScreen =
  id :: string
  isDark :: bool
  title :: string
  amount :: string
  type :: budget_type
  loading :: bool
  error :: string
  success :: string

definition EditBudgetScreen_fetchItem ::
  "(jsnum \<Rightarrow> string) \<Rightarrow> ItemRow answer \<Rightarrow> EditBudgetScreen
     \<Rightarrow> (event list \<times> EditBudgetScreen) completion" where
  \<comment> \<open>\<open>toString\<close> is the runtime's printing of a number; \<^verbatim>\<open>data.amount.toString()\<close> throws
     a type error when the amount is null, after the title has been set\<close>
  "EditBudgetScreen_fetchItem toString a s =
     (let sel = Request (SelectSingle ''budget_items'' (EditBudgetScreen.id s))
      in if answer.error a \<noteq> None
         then Returns ([sel, ConsoleError ''Error fetching item:'', SetTimeout RouterBack 1500],
                       s\<lparr>EditBudgetScreen.error := ''Failed to fetch item details''\<rparr>)
         else (case answer.data a of
                 Some d \<Rightarrow>
                   (case ItemRow.amount d of
                      None \<Rightarrow>
                        Throws ''TypeError''
                          ([sel], s\<lparr>EditBudgetScreen.title := ItemRow.title d\<rparr>)
                    | Some n \<Rightarrow>
                        Returns ([sel],
                                 s\<lparr>EditBudgetScreen.title := ItemRow.title d,
                                   EditBudgetScreen.amount := toString n,
                                   EditBudgetScreen.type := ItemRow.type d\<rparr>))
               | None \<Rightarrow> Returns ([sel], s)))"

definition EditBudgetScreen_handleSave ::
  "string option \<Rightarrow> EditBudgetScreen \<Rightarrow> event list \<times> EditBudgetScreen" where
  \<comment> \<open>\<open>updateError\<close> answers the update\<close>
  "EditBudgetScreen_handleSave updateError s =
     (if \<not> truthyStr (trim (EditBudgetScreen.title s)) \<or> \<not> truthyStr (trim (EditBudgetScreen.amount s))
      then ([SetTimeout ClearError 3000], s\<lparr>EditBudgetScreen.error := ''Please fill in all fields''\<rparr>)
      else (let amountValue = parseFloat (EditBudgetScreen.amount s)
            in if isNaN amountValue
               then ([SetTimeout ClearError 3000],
                     s\<lparr>EditBudgetScreen.error := ''Please enter a valid amount''\<rparr>)
               else (let upd = Request (Update ''budget_items''
                                 [(''title'', JStr (EditBudgetScreen.title s)),
                                  (''amount'', JNum amountValue),
                                  (''type'', JStr (typeStr (EditBudgetScreen.type s)))]
                                 (EditBudgetScreen.id s))
                     in if updateError \<noteq> None
                        then ([upd, ConsoleError ''Error updating item:'', SetTimeout ClearError 3000],
                              s\<lparr>EditBudgetScreen.error := ''Failed to update item'',
                                EditBudgetScreen.loading := False\<rparr>)
                        else ([upd, SetTimeout RouterBack 1000],
                              s\<lparr>EditBudgetScreen.error := [], EditBudgetScreen.loading := False,
                                EditBudgetScreen.success := ''Changes saved successfully''\<rparr>))))"

subsection \<open>The task edit screen\<close>

record EditTask =
  id :: string
  task :: "Task option"
  loading :: bool
  isDark :: bool
  category :: string
  categories :: "string list"

definition fetchTask :: "Task answer \<Rightarrow> EditTask \<Rightarrow> (event list \<times> EditTask) completion" where
  \<comment> \<open>nothing in it can throw: the row is read only when it is there\<close>
  "fetchTask a s =
     Returns
       ([Request (SelectSingle ''tasks'' (EditTask.id s))],
        (if answer.error a = None \<and> answer.data a \<noteq> None
         then s\<lparr>EditTask.task := answer.data a,
                EditTask.category := (case answer.data a of
                                        None \<Rightarrow> []
                                      | Some d \<Rightarrow> (case Task.category d of None \<Rightarrow> [] | Some c \<Rightarrow> c))\<rparr>
         else s)\<lparr>EditTask.loading := False\<rparr>)"

definition EditTask_handleSave :: "string option \<Rightarrow> EditTask \<Rightarrow> event list \<times> EditTask" where
  "EditTask_handleSave err s =
     (case EditTask.task s of
        None \<Rightarrow> ([], s)
      | Some t \<Rightarrow>
          (let upd = Request (Update ''tasks''
                       [(''title'', JStr (Task.title t)),
                        (''completed'', JBool (Task.completed t)),
                        (''category'', JStr (EditTask.category s))]
                       (EditTask.id s))
           in if err = None then ([upd, Navigate Back], s) else ([upd], s)))"

definition EditTask_view :: "EditTask \<Rightarrow> view" where
  "EditTask_view s =
     (if EditTask.loading s then TextOnly ''Loading...''
      else if EditTask.task s = None then TextOnly ''Task not found''
      else Form)"

subsection \<open>The budget edit screen of the route \<^verbatim>\<open>edit-budget/[id]\<close>\<close>

record EditBudgetItem =
  id :: string
  item :: "BudgetItem option"
  loading :: bool
  isDark :: bool
  showCurrencyPicker :: bool

definition EditBudgetItem_fetchItem ::
  "BudgetItem answer \<Rightarrow> EditBudgetItem \<Rightarrow> (event list \<times> EditBudgetItem) completion" where
  \<comment> \<open>nothing in it can throw: the row is stored as it is\<close>
  "EditBudgetItem_fetchItem a s =
     Returns
       ([Request (SelectSingle ''budget_items'' (EditBudgetItem.id s))],
        (if answer.error a = None \<and> answer.data a \<noteq> None
         then s\<lparr>EditBudgetItem.item := answer.data a\<rparr>
         else s)\<lparr>EditBudgetItem.loading := False\<rparr>)"

definition EditBudgetItem_handleSave ::
  "string option \<Rightarrow> bool \<Rightarrow> EditBudgetItem \<Rightarrow> event list \<times> EditBudgetItem" where
  \<comment> \<open>\<open>err\<close> answers the update; \<open>stored\<close> tells whether writing the preference succeeded\<close>
  "EditBudgetItem_handleSave err stored s =
     (case EditBudgetItem.item s of
        None \<Rightarrow> ([], s)
      | Some it \<Rightarrow>
          (let upd = Request (Update ''budget_items''
                       [(''title'', JStr (BudgetItem.title it)),
                        (''amount'', JNum (BudgetItem.amount it)),
                        (''type'', JStr (typeStr (BudgetItem.type it))),
                        (''currency'', JStr (BudgetItem.currency it))]
                       (EditBudgetItem.id s))
           in if err \<noteq> None then ([upd, ConsoleError ''Error saving budget item:''], s)
              else if stored
              then ([upd, SetItem ''currencyPreference'' (BudgetItem.currency it),
                     Navigate (Replace ''/(tabs)'')], s)
              else ([upd, SetItem ''currencyPreference'' (BudgetItem.currency it),
                     ConsoleError ''Failed to save budget item:''], s)))"

definition onChangeText :: "string \<Rightarrow> BudgetItem \<Rightarrow> BudgetItem" where
  \<comment> \<open>the amount input: \<^verbatim>\<open>const amount = parseFloat(text) || 0; setItem({ ...item, amount })\<close>\<close>
  "onChangeText text it =
     it\<lparr>BudgetItem.amount := (if truthyNum (parseFloat text) then parseFloat text else Fin 0)\<rparr>"

definition EditBudgetItem_view :: "EditBudgetItem \<Rightarrow> view" where
  "EditBudgetItem_view s =
     (if EditBudgetItem.loading s then TextOnly ''Loading...''
      else if EditBudgetItem.item s = None then TextOnly ''Item not found''
      else Form)"

section \<open>The remote store\<close>

text \<open>
  Modelled from the spec: the remote row store is a hosted service outside the
  repository; of it the spec says that a row is created by an insert with a
  server-assigned identifier and timestamp, and that a read returns the rows ordered by
  creation time, newest first. The collection of budget items is the list of its rows,
  newest first; \<open>newId\<close> and \<open>stamp\<close> are what the server assigns.
\<close>

definition typeOfStr :: "string \<Rightarrow> budget_type option" where
  \<comment> \<open>Modelled from the spec: the store reads the type of a row, one of the two labels\<close>
  "typeOfStr t = (if t = ''income'' then Some income else if t = ''outcome'' then Some outcome else None)"

definition rowOfFields :: "string \<Rightarrow> string \<Rightarrow> fields \<Rightarrow> BudgetItem option" where
  \<comment> \<open>Modelled from the spec: the row the store makes of an insert, with the identifier and
     the timestamp it assigns; none when a field is missing or of the wrong kind\<close>
  "rowOfFields newId stamp fs =
     (case (map_of fs ''title'', map_of fs ''amount'', map_of fs ''type'', map_of fs ''currency'') of
        (Some (JStr t), Some (JNum a), Some (JStr ty), Some (JStr c)) \<Rightarrow>
          (case typeOfStr ty of
             None \<Rightarrow> None
           | Some ty' \<Rightarrow>
               Some \<lparr>BudgetItem.id = newId, title = t, amount = a, created_at = stamp,
                     type = ty', currency = c\<rparr>)
      | _ \<Rightarrow> None)"

definition storeInsert ::
  "string \<Rightarrow> string \<Rightarrow> fields \<Rightarrow> BudgetItem list \<Rightarrow> string option \<times> BudgetItem list" where
  \<comment> \<open>Modelled from the spec: the insert of the store; its answer is the error, if any\<close>
  "storeInsert newId stamp fs rows =
     (case rowOfFields newId stamp fs of
        None \<Rightarrow> (Some ''invalid row'', rows)
      | Some r \<Rightarrow> (None, r # rows))"

definition storeSelect :: "BudgetItem list \<Rightarrow> BudgetItem list answer" where
  \<comment> \<open>Modelled from the spec: the read of the store, all rows ordered by creation time,
     newest first\<close>
  "storeSelect rows = \<lparr>data = Some rows, error = None\<rparr>"

section \<open>Properties of the password rule\<close>

lemma char_range_iff:
  "(lo \<le> c \<and> c \<le> hi) \<longleftrightarrow> c \<in> set (map char_of [of_char lo ..< Suc (of_char hi :: nat)])"
proof -
  have "c \<in> set (map char_of [of_char lo ..< Suc (of_char hi :: nat)])
        \<longleftrightarrow> (of_char lo :: nat) \<le> of_char c \<and> (of_char c :: nat) \<le> of_char hi"
  proof
    assume "c \<in> set (map char_of [of_char lo ..< Suc (of_char hi :: nat)])"
    then obtain n :: nat where n: "c = char_of n" "of_char lo \<le> n" "n \<le> of_char hi"
      by auto
    have "n < 256" by (rule le_less_trans [OF n(3) nat_of_char_less_256])
    then have "(of_char c :: nat) = n" using n(1) by (simp add: of_char_of)
    then show "(of_char lo :: nat) \<le> of_char c \<and> (of_char c :: nat) \<le> of_char hi"
      using n by simp
  next
    assume a: "(of_char lo :: nat) \<le> of_char c \<and> (of_char c :: nat) \<le> of_char hi"
    have "c = char_of (of_char c :: nat)" by simp
    then show "c \<in> set (map char_of [of_char lo ..< Suc (of_char hi :: nat)])"
      using a
      by (metis (no_types, lifting) atLeastLessThan_iff image_eqI less_Suc_eq_le list.set_map
          set_upt)
  qed
  then show ?thesis by (simp add: less_eq_char_def)
qed

lemma isLower_alphabet: "isLower c \<longleftrightarrow> c \<in> set ''abcdefghijklmnopqrstuvwxyz''"
proof -
  have "map char_of [of_char CHR ''a'' ..< Suc (of_char CHR ''z'' :: nat)]
        = ''abcdefghijklmnopqrstuvwxyz''"
    by code_simp
  then show ?thesis unfolding isLower_def char_range_iff by simp
qed

lemma isUpper_alphabet: "isUpper c \<longleftrightarrow> c \<in> set ''ABCDEFGHIJKLMNOPQRSTUVWXYZ''"
proof -
  have "map char_of [of_char CHR ''A'' ..< Suc (of_char CHR ''Z'' :: nat)]
        = ''ABCDEFGHIJKLMNOPQRSTUVWXYZ''"
    by code_simp
  then show ?thesis unfolding isUpper_def char_range_iff by simp
qed

lemma isDigit_alphabet: "isDigit c \<longleftrightarrow> c \<in> set ''0123456789''"
proof -
  have "map char_of [of_char CHR ''0'' ..< Suc (of_char CHR ''9'' :: nat)] = ''0123456789''"
    by code_simp
  then show ?thesis unfolding isDigit_def char_range_iff by simp
qed

lemma passwordChar_not_terminator: "isPasswordChar c \<Longrightarrow> \<not> isLineTerminator c"
  unfolding isPasswordChar_def isLower_alphabet isUpper_alphabet isDigit_alphabet isSymbol_def
    isLineTerminator_def
  by auto

lemma lookahead_iff:
  "list_all isPasswordChar s \<Longrightarrow> lookahead X s \<longleftrightarrow> (\<exists>c \<in> set s. X c)"
  by (induction s) (auto simp: passwordChar_not_terminator)

text \<open>
  C2. The signup password validator accepts a string iff it has exactly 10 characters,
  each an uppercase letter, a lowercase letter, a digit or one of the symbols
  \<^verbatim>\<open>@$!%*?&\<close>, with at least one character of each of the four classes. It rejects
  \<^verbatim>\<open>short1!\<close>, and every string of 9 or of 11 characters.
\<close>

theorem C2_validatePassword_iff:
  "(validatePassword s \<longleftrightarrow>
      length s = 10 \<and>
      (\<forall>c \<in> set s. c \<in> set ''ABCDEFGHIJKLMNOPQRSTUVWXYZ'' \<or> c \<in> set ''abcdefghijklmnopqrstuvwxyz''
                    \<or> c \<in> set ''0123456789'' \<or> c \<in> set ''@$!%*?&'') \<and>
      (\<exists>c \<in> set s. c \<in> set ''ABCDEFGHIJKLMNOPQRSTUVWXYZ'') \<and>
      (\<exists>c \<in> set s. c \<in> set ''abcdefghijklmnopqrstuvwxyz'') \<and>
      (\<exists>c \<in> set s. c \<in> set ''0123456789'') \<and>
      (\<exists>c \<in> set s. c \<in> set ''@$!%*?&''))
   \<and> \<not> validatePassword ''short1!''
   \<and> (length s = 9 \<or> length s = 11 \<longrightarrow> \<not> validatePassword s)"
proof -
  have cls: "list_all isPasswordChar s \<longleftrightarrow>
      (\<forall>c \<in> set s. c \<in> set ''ABCDEFGHIJKLMNOPQRSTUVWXYZ'' \<or> c \<in> set ''abcdefghijklmnopqrstuvwxyz''
                    \<or> c \<in> set ''0123456789'' \<or> c \<in> set ''@$!%*?&'')"
    unfolding list_all_iff isPasswordChar_def isSymbol_def
    using isLower_alphabet isUpper_alphabet isDigit_alphabet by simp
  have main: "validatePassword s \<longleftrightarrow>
      length s = 10 \<and> list_all isPasswordChar s \<and>
      (\<exists>c \<in> set s. isUpper c) \<and> (\<exists>c \<in> set s. isLower c) \<and>
      (\<exists>c \<in> set s. isDigit c) \<and> (\<exists>c \<in> set s. isSymbol c)"
    unfolding validatePassword_def using lookahead_iff by blast
  have ex: "(\<exists>c \<in> set s. isUpper c) \<longleftrightarrow> (\<exists>c \<in> set s. c \<in> set ''ABCDEFGHIJKLMNOPQRSTUVWXYZ'')"
    "(\<exists>c \<in> set s. isLower c) \<longleftrightarrow> (\<exists>c \<in> set s. c \<in> set ''abcdefghijklmnopqrstuvwxyz'')"
    "(\<exists>c \<in> set s. isDigit c) \<longleftrightarrow> (\<exists>c \<in> set s. c \<in> set ''0123456789'')"
    "(\<exists>c \<in> set s. isSymbol c) \<longleftrightarrow> (\<exists>c \<in> set s. c \<in> set ''@$!%*?&'')"
    using isLower_alphabet isUpper_alphabet isDigit_alphabet by (simp_all add: isSymbol_def)
  have short: "\<not> validatePassword ''short1!''"
    by (simp add: validatePassword_def)
  have len: "length s = 9 \<or> length s = 11 \<longrightarrow> \<not> validatePassword s"
    by (auto simp: validatePassword_def)
  have iff: "validatePassword s \<longleftrightarrow>
      length s = 10 \<and>
      (\<forall>c \<in> set s. c \<in> set ''ABCDEFGHIJKLMNOPQRSTUVWXYZ'' \<or> c \<in> set ''abcdefghijklmnopqrstuvwxyz''
                    \<or> c \<in> set ''0123456789'' \<or> c \<in> set ''@$!%*?&'') \<and>
      (\<exists>c \<in> set s. c \<in> set ''ABCDEFGHIJKLMNOPQRSTUVWXYZ'') \<and>
      (\<exists>c \<in> set s. c \<in> set ''abcdefghijklmnopqrstuvwxyz'') \<and>
      (\<exists>c \<in> set s. c \<in> set ''0123456789'') \<and>
      (\<exists>c \<in> set s. c \<in> set ''@$!%*?&'')"
    unfolding main cls ex by (rule refl)
  show ?thesis
    using iff short len by (intro conjI)
qed

theorem C2_validatePassword_witness:
  "validatePassword ''Abcdef123!'' \<and> \<not> validatePassword ''Abcdef12!''
   \<and> \<not> validatePassword ''Abcdef1234!'' \<and> \<not> validatePassword ''abcdef123!''"
  using C2_validatePassword_iff [of "''Abcdef123!''"] C2_validatePassword_iff [of "''Abcdef12!''"]
    C2_validatePassword_iff [of "''Abcdef1234!''"] C2_validatePassword_iff [of "''abcdef123!''"]
  by simp

section \<open>Properties of the budget sections\<close>

text \<open>
  C4. The derived budget sections are exactly two, "Income" then "Outcome"; the rows of
  each section are the rows of the list whose type is that of the section, in the order
  of the list; the two sections have no row in common and together hold every row of the
  list, as often as the list does. Both screens derive their sections the same way.
\<close>

theorem C4_budget_sections_partition:
  "map fst (sections rows) = [''Income'', ''Outcome'']
   \<and> budgetSections rows = sections rows
   \<and> snd (sections rows ! 0) = filter (\<lambda>item. BudgetItem.type item = income) rows
   \<and> snd (sections rows ! 1) = filter (\<lambda>item. BudgetItem.type item = outcome) rows
   \<and> set (snd (sections rows ! 0)) \<inter> set (snd (sections rows ! 1)) = {}
   \<and> mset (snd (sections rows ! 0)) + mset (snd (sections rows ! 1)) = mset rows
   \<and> (\<forall>item \<in> set rows.
        (item \<in> set (snd (sections rows ! 0)) \<longleftrightarrow> BudgetItem.type item = income) \<and>
        (item \<in> set (snd (sections rows ! 1)) \<longleftrightarrow> BudgetItem.type item = outcome) \<and>
        (item \<in> set (snd (sections rows ! 0)) \<longleftrightarrow> item \<notin> set (snd (sections rows ! 1))))
   \<and> subseq (snd (sections rows ! 0)) rows \<and> subseq (snd (sections rows ! 1)) rows"
proof -
  have neg: "(t = outcome) = (t \<noteq> income)" for t
    by (cases t) simp_all
  have ms: "mset (incomeItems rows) + mset (outcomeItems rows) = mset rows"
    unfolding incomeItems_def outcomeItems_def neg by simp
  have disj: "set (incomeItems rows) \<inter> set (outcomeItems rows) = {}"
    unfolding incomeItems_def outcomeItems_def by auto
  have mem: "\<forall>item \<in> set rows.
        (item \<in> set (incomeItems rows) \<longleftrightarrow> BudgetItem.type item = income) \<and>
        (item \<in> set (outcomeItems rows) \<longleftrightarrow> BudgetItem.type item = outcome) \<and>
        (item \<in> set (incomeItems rows) \<longleftrightarrow> item \<notin> set (outcomeItems rows))"
    unfolding incomeItems_def outcomeItems_def neg by simp
  have sub: "subseq (incomeItems rows) rows" "subseq (outcomeItems rows) rows"
    unfolding incomeItems_def outcomeItems_def by simp_all
  show ?thesis
    using ms disj mem sub
    by (simp add: sections_def budgetSections_def incomeItems_def outcomeItems_def)
qed

theorem C4_budget_sections_witness:
  "sections
     [\<lparr>BudgetItem.id = ''3'', title = ''Salary'', amount = Fin 1200, created_at = ''2025-01-03'',
       type = income, currency = ''EUR''\<rparr>,
      \<lparr>BudgetItem.id = ''2'', title = ''Rent'', amount = Fin 700, created_at = ''2025-01-02'',
       type = outcome, currency = ''EUR''\<rparr>,
      \<lparr>BudgetItem.id = ''1'', title = ''Refund'', amount = Fin 15, created_at = ''2025-01-01'',
       type = income, currency = ''EUR''\<rparr>]
   = [(''Income'',
       [\<lparr>BudgetItem.id = ''3'', title = ''Salary'', amount = Fin 1200, created_at = ''2025-01-03'',
         type = income, currency = ''EUR''\<rparr>,
        \<lparr>BudgetItem.id = ''1'', title = ''Refund'', amount = Fin 15, created_at = ''2025-01-01'',
         type = income, currency = ''EUR''\<rparr>]),
      (''Outcome'',
       [\<lparr>BudgetItem.id = ''2'', title = ''Rent'', amount = Fin 700, created_at = ''2025-01-02'',
         type = outcome, currency = ''EUR''\<rparr>])]"
  using C4_budget_sections_partition
    [of "[\<lparr>BudgetItem.id = ''3'', title = ''Salary'', amount = Fin 1200, created_at = ''2025-01-03'',
           type = income, currency = ''EUR''\<rparr>,
          \<lparr>BudgetItem.id = ''2'', title = ''Rent'', amount = Fin 700, created_at = ''2025-01-02'',
           type = outcome, currency = ''EUR''\<rparr>,
          \<lparr>BudgetItem.id = ''1'', title = ''Refund'', amount = Fin 15, created_at = ''2025-01-01'',
           type = income, currency = ''EUR''\<rparr>]"]
  by (simp add: sections_def incomeItems_def outcomeItems_def)

section \<open>Properties of the task sections\<close>

lemma taskSections_titles: "map fst (taskSections getTime now ts) = [''Urgent'', ''Ongoing'', ''Done'']"
  by (simp add: taskSections_def)

lemma done_section: "snd (taskSections getTime now ts ! 2) = filter (\<lambda>t. Task.completed t) ts"
  by (simp add: taskSections_def completedTasks_def)

text \<open>
  A task whose deadline is absent, empty or a date is urgent or ongoing, never both: then
  the two predicates are complements, and the three sections hold every task once.
\<close>

lemma urgent_ongoing_complement:
  assumes "\<And>d. Task.deadline t = Some d \<Longrightarrow> d \<noteq> [] \<Longrightarrow> getTime d \<noteq> None"
  shows "isOngoingTask getTime now t \<longleftrightarrow> \<not> isUrgentTask getTime now t"
proof (cases "Task.deadline t")
  case None
  then show ?thesis by (simp add: isOngoingTask_def isUrgentTask_def)
next
  case (Some d)
  show ?thesis
  proof (cases "d = []")
    case True
    with Some show ?thesis by (simp add: isOngoingTask_def isUrgentTask_def truthyStr_def)
  next
    case False
    with Some assms obtain ms where "getTime d = Some ms" by blast
    with Some False show ?thesis
      by (auto simp: isOngoingTask_def isUrgentTask_def truthyStr_def getDaysRemaining_def
          numLe_def numGt_def Let_def)
  qed
qed

lemma taskSections_partition_of_dated:
  assumes "\<And>t d. t \<in> set ts \<Longrightarrow> Task.deadline t = Some d \<Longrightarrow> d \<noteq> [] \<Longrightarrow> getTime d \<noteq> None"
  shows "mset (concat (map snd (taskSections getTime now ts))) = mset ts"
proof -
  have "filter (isOngoingTask getTime now) (ongoingTasks ts)
        = filter (\<lambda>t. \<not> isUrgentTask getTime now t) (ongoingTasks ts)"
    using assms urgent_ongoing_complement
    by (intro filter_cong refl) (auto simp: ongoingTasks_def)
  then have "mset (concat (map snd (taskSections getTime now ts)))
        = mset (filter (isUrgentTask getTime now) (ongoingTasks ts))
          + mset (filter (\<lambda>t. \<not> isUrgentTask getTime now t) (ongoingTasks ts))
          + mset (completedTasks ts)"
    by (simp add: taskSections_def)
  also have "\<dots> = mset (ongoingTasks ts) + mset (completedTasks ts)"
    by simp
  also have "\<dots> = mset ts"
    by (simp add: ongoingTasks_def completedTasks_def)
  finally show ?thesis .
qed

text \<open>
  C1. The sections are Urgent, Ongoing, Done in this order, but they do not hold every
  task: a task that is not completed and whose deadline is a string the runtime does
  not read as a date (here \<^verbatim>\<open>abc\<close>) has days remaining not-a-number, which is neither
  \<open>\<le> 3\<close> nor \<open>> 3\<close>, and the task is in none of the three sections.
\<close>

theorem C1_unparsable_deadline_in_no_section:
  "getTime ''abc'' = None \<Longrightarrow>
   taskSections getTime now
     [\<lparr>Task.id = ''1'', title = ''Call the bank'', description = None,
       created_at = ''2025-01-01T09:00:00Z'', completed = False,
       deadline = Some ''abc'', category = None\<rparr>]
   = [(''Urgent'', []), (''Ongoing'', []), (''Done'', [])]"
  by (simp add: taskSections_def ongoingTasks_def completedTasks_def isUrgentTask_def
      isOngoingTask_def getDaysRemaining_def numLe_def numGt_def truthyStr_def)

theorem C1_unparsable_deadline_witness:
  "taskSections [''2025-01-10'' \<mapsto> 1736467200000] 1736300000000
     [\<lparr>Task.id = ''1'', title = ''Call the bank'', description = None,
       created_at = ''2025-01-01T09:00:00Z'', completed = False,
       deadline = Some ''abc'', category = None\<rparr>]
   = [(''Urgent'', []), (''Ongoing'', []), (''Done'', [])]"
  using C1_unparsable_deadline_in_no_section
    [of "[''2025-01-10'' \<mapsto> 1736467200000]" 1736300000000]
  by simp

lemma dated_task_is_urgent_example:
  "taskSections [''2025-01-10'' \<mapsto> 1736467200000] 1736300000000
     [\<lparr>Task.id = ''2'', title = ''Pay rent'', description = None,
       created_at = ''2025-01-01T09:00:00Z'', completed = False,
       deadline = Some ''2025-01-10'', category = None\<rparr>]
   = [(''Urgent'',
       [\<lparr>Task.id = ''2'', title = ''Pay rent'', description = None,
         created_at = ''2025-01-01T09:00:00Z'', completed = False,
         deadline = Some ''2025-01-10'', category = None\<rparr>]),
      (''Ongoing'', []), (''Done'', [])]"
  by (simp add: taskSections_def ongoingTasks_def completedTasks_def isUrgentTask_def
      isOngoingTask_def getDaysRemaining_def numLe_def numGt_def truthyStr_def Let_def)

section \<open>Properties of the list screens\<close>

lemma requests_simps:
  "requests [] = []"
  "requests (Request r # evs) = r # requests evs"
  "requests (ConsoleError m # evs) = requests evs"
  "requests (Alert m1 m2 # evs) = requests evs"
  "requests (Navigate n # evs) = requests evs"
  "requests (SetTimeout c k # evs) = requests evs"
  "requests (SetItem k1 k2 # evs) = requests evs"
  by (simp_all add: requests_def)

text \<open>
  C3. On each list screen (the task list with its two tabs, and the budget screen), a
  Delete sends one delete by id and nothing else, so it never reads the collection
  again: when it succeeds the local rows become the old rows without those of that id,
  in their old order, and nothing else of the state changes; when it fails the state is
  unchanged. A Toggle sends one update by id of the one field; when that succeeds it
  reads the whole collection next and the local rows become whatever the read returns
  (or stay as they were when the read fails), and when it fails no read is sent and the
  state is unchanged.
\<close>

theorem C3_delete_patches_toggle_refetches:
  "\<comment> \<open>Delete, in the three places\<close>
   deleteTask None k s =
     ([Request (Delete ''tasks'' k)],
      s\<lparr>TaskList.tasks := filter (\<lambda>t. Task.id t \<noteq> k) (TaskList.tasks s)\<rparr>)
   \<and> deleteBudgetItem None k s =
     ([Request (Delete ''budget_items'' k)],
      s\<lparr>TaskList.budgetItems := filter (\<lambda>i. BudgetItem.id i \<noteq> k) (TaskList.budgetItems s)\<rparr>)
   \<and> deleteItem None k b =
     ([Request (Delete ''budget_items'' k)],
      b\<lparr>BudgetScreen.items := filter (\<lambda>i. BudgetItem.id i \<noteq> k) (BudgetScreen.items b)\<rparr>)
   \<and> requests (fst (deleteTask e k s)) = [Delete ''tasks'' k]
   \<and> requests (fst (deleteBudgetItem e k s)) = [Delete ''budget_items'' k]
   \<and> requests (fst (deleteItem e k b)) = [Delete ''budget_items'' k]
   \<and> snd (deleteTask (Some m) k s) = s
   \<and> snd (deleteBudgetItem (Some m) k s) = s
   \<and> snd (deleteItem (Some m) k b) = b
   \<and> subseq (TaskList.tasks (snd (deleteTask None k s))) (TaskList.tasks s)
   \<and> set (TaskList.tasks (snd (deleteTask None k s))) = set (TaskList.tasks s) - {t. Task.id t = k}
   \<comment> \<open>Toggle, in the three places\<close>
   \<and> requests (fst (toggleTaskCompletion None ta k c s))
       = [Update ''tasks'' [(''completed'', JBool (\<not> c))] k, SelectAll ''tasks'']
   \<and> requests (fst (toggleBudgetItemType None ba k ty s))
       = [Update ''budget_items'' [(''type'', JStr (typeStr (if ty = income then outcome else income)))] k,
          SelectAll ''budget_items'']
   \<and> requests (fst (toggleItemType None ba k ty b))
       = [Update ''budget_items'' [(''type'', JStr (typeStr (if ty = income then outcome else income)))] k,
          SelectAll ''budget_items'']
   \<and> snd (toggleTaskCompletion None \<lparr>data = Some rows, error = None\<rparr> k c s)
       = s\<lparr>TaskList.tasks := rows\<rparr>
   \<and> snd (toggleBudgetItemType None \<lparr>data = Some brows, error = None\<rparr> k ty s)
       = s\<lparr>TaskList.budgetItems := brows\<rparr>
   \<and> snd (toggleItemType None \<lparr>data = Some brows, error = None\<rparr> k ty b)
       = b\<lparr>BudgetScreen.items := brows\<rparr>
   \<and> snd (toggleTaskCompletion None \<lparr>data = d, error = Some m\<rparr> k c s) = s
   \<and> snd (toggleBudgetItemType None \<lparr>data = bd, error = Some m\<rparr> k ty s) = s
   \<and> snd (toggleItemType None \<lparr>data = bd, error = Some m\<rparr> k ty b) = b
   \<and> requests (fst (toggleTaskCompletion (Some m) ta k c s))
       = [Update ''tasks'' [(''completed'', JBool (\<not> c))] k]
   \<and> requests (fst (toggleBudgetItemType (Some m) ba k ty s))
       = [Update ''budget_items'' [(''type'', JStr (typeStr (if ty = income then outcome else income)))] k]
   \<and> requests (fst (toggleItemType (Some m) ba k ty b))
       = [Update ''budget_items'' [(''type'', JStr (typeStr (if ty = income then outcome else income)))] k]
   \<and> snd (toggleTaskCompletion (Some m) ta k c s) = s
   \<and> snd (toggleBudgetItemType (Some m) ba k ty s) = s
   \<and> snd (toggleItemType (Some m) ba k ty b) = b"
proof -
  have del: "deleteTask None k s =
       ([Request (Delete ''tasks'' k)],
        s\<lparr>TaskList.tasks := filter (\<lambda>t. Task.id t \<noteq> k) (TaskList.tasks s)\<rparr>)"
    "deleteBudgetItem None k s =
       ([Request (Delete ''budget_items'' k)],
        s\<lparr>TaskList.budgetItems := filter (\<lambda>i. BudgetItem.id i \<noteq> k) (TaskList.budgetItems s)\<rparr>)"
    "deleteItem None k b =
       ([Request (Delete ''budget_items'' k)],
        b\<lparr>BudgetScreen.items := filter (\<lambda>i. BudgetItem.id i \<noteq> k) (BudgetScreen.items b)\<rparr>)"
    by (simp_all add: deleteTask_def deleteBudgetItem_def deleteItem_def)
  have delreq: "requests (fst (deleteTask e k s)) = [Delete ''tasks'' k]"
    "requests (fst (deleteBudgetItem e k s)) = [Delete ''budget_items'' k]"
    "requests (fst (deleteItem e k b)) = [Delete ''budget_items'' k]"
    by (simp_all add: deleteTask_def deleteBudgetItem_def deleteItem_def requests_simps)
  have delfail: "snd (deleteTask (Some m) k s) = s" "snd (deleteBudgetItem (Some m) k s) = s"
    "snd (deleteItem (Some m) k b) = b"
    by (simp_all add: deleteTask_def deleteBudgetItem_def deleteItem_def)
  have delrows: "subseq (TaskList.tasks (snd (deleteTask None k s))) (TaskList.tasks s)"
    "set (TaskList.tasks (snd (deleteTask None k s))) = set (TaskList.tasks s) - {t. Task.id t = k}"
    by (auto simp: deleteTask_def)
  have ty: "(if ty = income then ''outcome'' else ''income'')
            = typeStr (if ty = income then outcome else income)"
    by (simp add: typeStr_def)
  have togreq: "requests (fst (toggleTaskCompletion None ta k c s))
       = [Update ''tasks'' [(''completed'', JBool (\<not> c))] k, SelectAll ''tasks'']"
    "requests (fst (toggleBudgetItemType None ba k ty s))
       = [Update ''budget_items'' [(''type'', JStr (typeStr (if ty = income then outcome else income)))] k,
          SelectAll ''budget_items'']"
    "requests (fst (toggleItemType None ba k ty b))
       = [Update ''budget_items'' [(''type'', JStr (typeStr (if ty = income then outcome else income)))] k,
          SelectAll ''budget_items'']"
    by (simp_all add: toggleTaskCompletion_def toggleBudgetItemType_def toggleItemType_def
        fetchTasks_def TaskList_fetchBudgetItems_def fetchBudgetItems_def requests_simps ty
        Let_def split: prod.split)
  have togok: "snd (toggleTaskCompletion None \<lparr>data = Some rows, error = None\<rparr> k c s)
       = s\<lparr>TaskList.tasks := rows\<rparr>"
    "snd (toggleBudgetItemType None \<lparr>data = Some brows, error = None\<rparr> k ty s)
       = s\<lparr>TaskList.budgetItems := brows\<rparr>"
    "snd (toggleItemType None \<lparr>data = Some brows, error = None\<rparr> k ty b)
       = b\<lparr>BudgetScreen.items := brows\<rparr>"
    by (simp_all add: toggleTaskCompletion_def toggleBudgetItemType_def toggleItemType_def
        fetchTasks_def TaskList_fetchBudgetItems_def fetchBudgetItems_def Let_def)
  have togstale: "snd (toggleTaskCompletion None \<lparr>data = d, error = Some m\<rparr> k c s) = s"
    "snd (toggleBudgetItemType None \<lparr>data = bd, error = Some m\<rparr> k ty s) = s"
    "snd (toggleItemType None \<lparr>data = bd, error = Some m\<rparr> k ty b) = b"
    by (simp_all add: toggleTaskCompletion_def toggleBudgetItemType_def toggleItemType_def
        fetchTasks_def TaskList_fetchBudgetItems_def fetchBudgetItems_def Let_def)
  have togfailreq: "requests (fst (toggleTaskCompletion (Some m) ta k c s))
       = [Update ''tasks'' [(''completed'', JBool (\<not> c))] k]"
    "requests (fst (toggleBudgetItemType (Some m) ba k ty s))
       = [Update ''budget_items'' [(''type'', JStr (typeStr (if ty = income then outcome else income)))] k]"
    "requests (fst (toggleItemType (Some m) ba k ty b))
       = [Update ''budget_items'' [(''type'', JStr (typeStr (if ty = income then outcome else income)))] k]"
    by (simp_all add: toggleTaskCompletion_def toggleBudgetItemType_def toggleItemType_def
        requests_simps ty Let_def)
  have togfail: "snd (toggleTaskCompletion (Some m) ta k c s) = s"
    "snd (toggleBudgetItemType (Some m) ba k ty s) = s"
    "snd (toggleItemType (Some m) ba k ty b) = b"
    by (simp_all add: toggleTaskCompletion_def toggleBudgetItemType_def toggleItemType_def Let_def)
  show ?thesis
    by (intro conjI del delreq delfail delrows togreq togok togstale togfailreq togfail)
qed

section \<open>Properties of the create screens\<close>

lemmas js_eval = parseFloat_def Number_def signed_def unsignedDecimal_def exponentPart_def
  digitsVal_def digitVal_def isDigit_def isWhiteSpace_def pow10_def less_eq_char_def trim_def
  truthyStr_def truthyNum_def isNaN_def nonNegative_def typeStr_def Let_def

text \<open>
  C5, as the claim states it, fails: the create screen checks that the amount text is not
  empty and that \<^verbatim>\<open>Number\<close> reads it, never its sign. With the amount text \<^verbatim>\<open>-5\<close> the
  validation passes and the insert carries the amount \<open>-5\<close>.
\<close>

theorem C5_negative_amount_counterexample:
  "fst (handleAddBudgetItem (Some ''user-1'') None
     \<lparr>AddBudgetScreen.title = ''Refund'', amount = ''-5'', type = outcome,
      currency = \<lparr>code = ''USD'', symbol = ''$'', name = ''US Dollar''\<rparr>,
      isDark = False, loading = False, error = [], showCurrencyPicker = False\<rparr>)
   = [Request GetUser,
      Request (Insert ''budget_items''
        [(''title'', JStr ''Refund''), (''amount'', JNum (Fin (- 5))), (''type'', JStr ''outcome''),
         (''currency'', JStr ''USD''), (''user_id'', JStr ''user-1'')]),
      Navigate (Replace ''/(tabs)'')]
   \<and> \<not> nonNegative (Fin (- 5))"
  by (simp add: handleAddBudgetItem_def js_eval)

text \<open>
  C5, amended. For every amount text that \<^verbatim>\<open>parseFloat\<close> reads as a number, the create
  screen writes exactly that number as the amount, whatever its sign, and the type of
  the form unchanged. The edit screen with messages writes \<^verbatim>\<open>parseFloat\<close> of its amount
  text, which it has checked to be a number, and the type unchanged; the edit screen of
  the route \<^verbatim>\<open>edit-budget/[id]\<close> writes the amount and the type of the item it holds. No
  screen looks at the sign: the amount written is non-negative exactly when the number
  read is.
\<close>

theorem C5_written_amount_is_the_parsed_text:
  "(Request (Insert c fs) \<in> set (fst (handleAddBudgetItem user e1 s1))
      \<and> parseFloat (AddBudgetScreen.amount s1) \<noteq> NaN \<longrightarrow>
      c = ''budget_items''
      \<and> (\<exists>x. map_of fs ''amount'' = Some (JNum x)
             \<and> x = parseFloat (AddBudgetScreen.amount s1) \<and> x \<noteq> NaN
             \<and> (nonNegative x \<longleftrightarrow> nonNegative (parseFloat (AddBudgetScreen.amount s1))))
      \<and> map_of fs ''type'' = Some (JStr (typeStr (AddBudgetScreen.type s1))))
   \<and> (Request (Update c fs i) \<in> set (fst (EditBudgetScreen_handleSave e2 s2)) \<longrightarrow>
      c = ''budget_items''
      \<and> map_of fs ''amount'' = Some (JNum (parseFloat (EditBudgetScreen.amount s2)))
      \<and> parseFloat (EditBudgetScreen.amount s2) \<noteq> NaN
      \<and> map_of fs ''type'' = Some (JStr (typeStr (EditBudgetScreen.type s2))))
   \<and> (Request (Update c fs i) \<in> set (fst (EditBudgetItem_handleSave e3 stored s3)) \<longrightarrow>
      c = ''budget_items''
      \<and> (\<exists>it. EditBudgetItem.item s3 = Some it
            \<and> map_of fs ''amount'' = Some (JNum (BudgetItem.amount it))
            \<and> map_of fs ''type'' = Some (JStr (typeStr (BudgetItem.type it)))))"
proof (intro conjI impI)
  assume h: "Request (Insert c fs) \<in> set (fst (handleAddBudgetItem user e1 s1))
      \<and> parseFloat (AddBudgetScreen.amount s1) \<noteq> NaN"
  then have "c = ''budget_items''
      \<and> map_of fs ''amount'' = Some (JNum (parseFloat (AddBudgetScreen.amount s1)))
      \<and> map_of fs ''type'' = Some (JStr (typeStr (AddBudgetScreen.type s1)))"
    by (auto simp: handleAddBudgetItem_def Let_def split: if_splits option.splits)
  with h show "c = ''budget_items''"
    and "\<exists>x. map_of fs ''amount'' = Some (JNum x)
             \<and> x = parseFloat (AddBudgetScreen.amount s1) \<and> x \<noteq> NaN
             \<and> (nonNegative x \<longleftrightarrow> nonNegative (parseFloat (AddBudgetScreen.amount s1)))"
    and "map_of fs ''type'' = Some (JStr (typeStr (AddBudgetScreen.type s1)))"
    by simp_all
next
  assume "Request (Update c fs i) \<in> set (fst (EditBudgetScreen_handleSave e2 s2))"
  then have "c = ''budget_items''
      \<and> map_of fs ''amount'' = Some (JNum (parseFloat (EditBudgetScreen.amount s2)))
      \<and> parseFloat (EditBudgetScreen.amount s2) \<noteq> NaN
      \<and> map_of fs ''type'' = Some (JStr (typeStr (EditBudgetScreen.type s2)))"
    by (auto simp: EditBudgetScreen_handleSave_def isNaN_def Let_def split: if_splits)
  then show "c = ''budget_items''"
    and "map_of fs ''amount'' = Some (JNum (parseFloat (EditBudgetScreen.amount s2)))"
    and "parseFloat (EditBudgetScreen.amount s2) \<noteq> NaN"
    and "map_of fs ''type'' = Some (JStr (typeStr (EditBudgetScreen.type s2)))"
    by simp_all
next
  assume "Request (Update c fs i) \<in> set (fst (EditBudgetItem_handleSave e3 stored s3))"
  then have "c = ''budget_items''
      \<and> (\<exists>it. EditBudgetItem.item s3 = Some it
            \<and> map_of fs ''amount'' = Some (JNum (BudgetItem.amount it))
            \<and> map_of fs ''type'' = Some (JStr (typeStr (BudgetItem.type it))))"
    by (auto simp: EditBudgetItem_handleSave_def Let_def split: if_splits option.splits)
  then show "c = ''budget_items''"
    and "\<exists>it. EditBudgetItem.item s3 = Some it
            \<and> map_of fs ''amount'' = Some (JNum (BudgetItem.amount it))
            \<and> map_of fs ''type'' = Some (JStr (typeStr (BudgetItem.type it)))"
    by simp_all
qed

theorem C5_written_amount_witness:
  "Request (Insert ''budget_items''
      [(''title'', JStr ''Lunch''), (''amount'', JNum (Fin (85 / 2))), (''type'', JStr ''outcome''),
       (''currency'', JStr ''USD''), (''user_id'', JStr ''user-1'')])
     \<in> set (fst (handleAddBudgetItem (Some ''user-1'') None
          \<lparr>AddBudgetScreen.title = ''Lunch'', amount = ''42.50'', type = outcome,
           currency = \<lparr>code = ''USD'', symbol = ''$'', name = ''US Dollar''\<rparr>,
           isDark = False, loading = False, error = [], showCurrencyPicker = False\<rparr>))
   \<and> parseFloat ''42.50'' = Fin (85 / 2)
   \<and> Request (Update ''budget_items''
      [(''title'', JStr ''Lunch''), (''amount'', JNum (Fin (- 5))), (''type'', JStr ''outcome'')] ''7'')
     \<in> set (fst (EditBudgetScreen_handleSave None
          \<lparr>EditBudgetScreen.id = ''7'', isDark = False, title = ''Lunch'', amount = ''-5'',
           type = outcome, loading = False, error = [], success = []\<rparr>))
   \<and> parseFloat ''-5'' = Fin (- 5)
   \<and> Request (Update ''budget_items''
      [(''title'', JStr ''Lunch''), (''amount'', JNum (Fin 3)), (''type'', JStr ''outcome''),
       (''currency'', JStr ''USD'')] ''7'')
     \<in> set (fst (EditBudgetItem_handleSave None True
          \<lparr>EditBudgetItem.id = ''7'',
           item = Some \<lparr>BudgetItem.id = ''7'', title = ''Lunch'', amount = Fin 3,
                        created_at = ''2025-01-01'', type = outcome, currency = ''USD''\<rparr>,
           loading = False, isDark = False, showCurrencyPicker = False\<rparr>))
   \<and> map_of [(''title'', JStr ''Lunch''), (''amount'', JNum (Fin 3)), (''type'', JStr ''outcome''),
              (''currency'', JStr ''USD'')] ''amount'' = Some (JNum (Fin 3))"
proof -
  have m1: "Request (Insert ''budget_items''
      [(''title'', JStr ''Lunch''), (''amount'', JNum (Fin (85 / 2))), (''type'', JStr ''outcome''),
       (''currency'', JStr ''USD''), (''user_id'', JStr ''user-1'')])
     \<in> set (fst (handleAddBudgetItem (Some ''user-1'') None
          \<lparr>AddBudgetScreen.title = ''Lunch'', amount = ''42.50'', type = outcome,
           currency = \<lparr>code = ''USD'', symbol = ''$'', name = ''US Dollar''\<rparr>,
           isDark = False, loading = False, error = [], showCurrencyPicker = False\<rparr>))"
    by (simp add: handleAddBudgetItem_def js_eval)
  have n1: "parseFloat (AddBudgetScreen.amount
          \<lparr>AddBudgetScreen.title = ''Lunch'', amount = ''42.50'', type = outcome,
           currency = \<lparr>code = ''USD'', symbol = ''$'', name = ''US Dollar''\<rparr>,
           isDark = False, loading = False, error = [], showCurrencyPicker = False\<rparr>) \<noteq> NaN"
    by (simp add: js_eval)
  have m2: "Request (Update ''budget_items''
      [(''title'', JStr ''Lunch''), (''amount'', JNum (Fin (- 5))), (''type'', JStr ''outcome'')] ''7'')
     \<in> set (fst (EditBudgetScreen_handleSave None
          \<lparr>EditBudgetScreen.id = ''7'', isDark = False, title = ''Lunch'', amount = ''-5'',
           type = outcome, loading = False, error = [], success = []\<rparr>))"
    by (simp add: EditBudgetScreen_handleSave_def js_eval)
  have m3: "Request (Update ''budget_items''
      [(''title'', JStr ''Lunch''), (''amount'', JNum (Fin 3)), (''type'', JStr ''outcome''),
       (''currency'', JStr ''USD'')] ''7'')
     \<in> set (fst (EditBudgetItem_handleSave None True
          \<lparr>EditBudgetItem.id = ''7'',
           item = Some \<lparr>BudgetItem.id = ''7'', title = ''Lunch'', amount = Fin 3,
                        created_at = ''2025-01-01'', type = outcome, currency = ''USD''\<rparr>,
           loading = False, isDark = False, showCurrencyPicker = False\<rparr>))"
    by (simp add: EditBudgetItem_handleSave_def js_eval)
  note c1 = C5_written_amount_is_the_parsed_text
    [THEN conjunct1, rule_format, OF conjI [OF m1 n1]]
  note c2 = C5_written_amount_is_the_parsed_text [THEN conjunct2, THEN conjunct1, rule_format, OF m2]
  note c3 = C5_written_amount_is_the_parsed_text [THEN conjunct2, THEN conjunct2, rule_format, OF m3]
  from c1 have p1: "parseFloat ''42.50'' = Fin (85 / 2)" by simp
  from c2 have p2: "parseFloat ''-5'' = Fin (- 5)" by simp
  from c3 have p3: "map_of [(''title'', JStr ''Lunch''), (''amount'', JNum (Fin 3)),
      (''type'', JStr ''outcome''), (''currency'', JStr ''USD'')] ''amount'' = Some (JNum (Fin 3))"
    by simp
  show ?thesis using m1 p1 m2 p2 m3 p3 by (intro conjI)
qed




section \<open>Create, then read\<close>

lemma parseFloat_42_50: "parseFloat ''42.50'' = Fin (85 / 2)"
  by (simp add: js_eval)

lemma Number_42_50: "Number ''42.50'' = Fin (85 / 2)"
  by (simp add: js_eval)

text \<open>
  C9. Creating a budget item with a title that is not blank, the amount text \<^verbatim>\<open>42.50\<close>
  and the type outcome, signed in, sends one insert whose amount is \<open>42.5\<close>, the value
  of \<^verbatim>\<open>parseFloat\<close>, and whose type is outcome. The store keeps the row with that amount
  and type, and the next read of either list screen puts the rows of the store, with
  that row first and unchanged, into the local state.
\<close>

theorem C9_create_then_read_roundtrip:
  "truthyStr (trim (AddBudgetScreen.title s)) \<Longrightarrow> AddBudgetScreen.amount s = ''42.50'' \<Longrightarrow>
   AddBudgetScreen.type s = outcome \<Longrightarrow>
   \<exists>fs r. requests (fst (handleAddBudgetItem (Some uid) e s)) = [GetUser, Insert ''budget_items'' fs]
     \<and> map_of fs ''amount'' = Some (JNum (Fin (85 / 2)))
     \<and> map_of fs ''type'' = Some (JStr ''outcome'')
     \<and> storeInsert newId stamp fs rows = (None, r # rows)
     \<and> BudgetItem.amount r = Fin (85 / 2) \<and> BudgetItem.type r = outcome
     \<and> BudgetItem.title r = AddBudgetScreen.title s
     \<and> fetchBudgetItems (storeSelect (r # rows)) scr
         = ([Request (SelectAll ''budget_items'')], scr\<lparr>BudgetScreen.items := r # rows\<rparr>)
     \<and> TaskList_fetchBudgetItems (storeSelect (r # rows)) lst
         = ([Request (SelectAll ''budget_items'')], lst\<lparr>TaskList.budgetItems := r # rows\<rparr>)"
proof -
  assume a: "truthyStr (trim (AddBudgetScreen.title s))" "AddBudgetScreen.amount s = ''42.50''"
    "AddBudgetScreen.type s = outcome"
  let ?fs = "[(''title'', JStr (AddBudgetScreen.title s)), (''amount'', JNum (Fin (85 / 2))),
              (''type'', JStr ''outcome''),
              (''currency'', JStr (Currency.code (AddBudgetScreen.currency s))),
              (''user_id'', JStr uid)]"
  let ?r = "\<lparr>BudgetItem.id = newId, title = AddBudgetScreen.title s, amount = Fin (85 / 2),
             created_at = stamp, type = outcome,
             currency = Currency.code (AddBudgetScreen.currency s)\<rparr>"
  have req: "requests (fst (handleAddBudgetItem (Some uid) e s)) = [GetUser, Insert ''budget_items'' ?fs]"
    using a
    by (cases e)
      (simp_all add: handleAddBudgetItem_def requests_simps parseFloat_42_50 Number_42_50
        isNaN_def truthyStr_def typeStr_def Let_def)
  have ins: "storeInsert newId stamp ?fs rows = (None, ?r # rows)"
    by (simp add: storeInsert_def rowOfFields_def typeOfStr_def)
  have sel: "fetchBudgetItems (storeSelect (?r # rows)) scr
         = ([Request (SelectAll ''budget_items'')], scr\<lparr>BudgetScreen.items := ?r # rows\<rparr>)"
    "TaskList_fetchBudgetItems (storeSelect (?r # rows)) lst
         = ([Request (SelectAll ''budget_items'')], lst\<lparr>TaskList.budgetItems := ?r # rows\<rparr>)"
    by (simp_all add: fetchBudgetItems_def TaskList_fetchBudgetItems_def storeSelect_def)
  show ?thesis
    apply (rule exI [of _ ?fs])
    apply (rule exI [of _ ?r])
    using req ins sel by simp
qed

theorem C9_roundtrip_witness:
  "\<exists>fs r. requests (fst (handleAddBudgetItem (Some ''user-1'') None
         \<lparr>AddBudgetScreen.title = ''Lunch'', amount = ''42.50'', type = outcome,
          currency = \<lparr>code = ''EUR'', symbol = ''E'', name = ''Euro''\<rparr>,
          isDark = False, loading = False, error = [], showCurrencyPicker = False\<rparr>))
       = [GetUser, Insert ''budget_items'' fs]
     \<and> map_of fs ''amount'' = Some (JNum (Fin (85 / 2)))
     \<and> map_of fs ''type'' = Some (JStr ''outcome'')
     \<and> storeInsert ''41'' ''2025-01-05T12:00:00Z'' fs [] = (None, r # [])
     \<and> BudgetItem.amount r = Fin (85 / 2) \<and> BudgetItem.type r = outcome
     \<and> BudgetItem.title r = AddBudgetScreen.title
         \<lparr>AddBudgetScreen.title = ''Lunch'', amount = ''42.50'', type = outcome,
          currency = \<lparr>code = ''EUR'', symbol = ''E'', name = ''Euro''\<rparr>,
          isDark = False, loading = False, error = [], showCurrencyPicker = False\<rparr>
     \<and> fetchBudgetItems (storeSelect (r # []))
           \<lparr>BudgetScreen.items = [], isDark = False, userCurrency = ''EUR''\<rparr>
         = ([Request (SelectAll ''budget_items'')],
            \<lparr>BudgetScreen.items = [], isDark = False, userCurrency = ''EUR''\<rparr>
              \<lparr>BudgetScreen.items := r # []\<rparr>)
     \<and> TaskList_fetchBudgetItems (storeSelect (r # []))
           \<lparr>activeTab = BudgetTab, tasks = [], budgetItems = [], isDark = False\<rparr>
         = ([Request (SelectAll ''budget_items'')],
            \<lparr>activeTab = BudgetTab, tasks = [], budgetItems = [], isDark = False\<rparr>
              \<lparr>TaskList.budgetItems := r # []\<rparr>)"
proof -
  have h1: "truthyStr (trim (AddBudgetScreen.title
         \<lparr>AddBudgetScreen.title = ''Lunch'', amount = ''42.50'', type = outcome,
          currency = \<lparr>code = ''EUR'', symbol = ''E'', name = ''Euro''\<rparr>,
          isDark = False, loading = False, error = [], showCurrencyPicker = False\<rparr>))"
    by (simp add: js_eval)
  have h2: "AddBudgetScreen.amount
         \<lparr>AddBudgetScreen.title = ''Lunch'', amount = ''42.50'', type = outcome,
          currency = \<lparr>code = ''EUR'', symbol = ''E'', name = ''Euro''\<rparr>,
          isDark = False, loading = False, error = [], showCurrencyPicker = False\<rparr> = ''42.50''"
    by simp
  have h3: "AddBudgetScreen.type
         \<lparr>AddBudgetScreen.title = ''Lunch'', amount = ''42.50'', type = outcome,
          currency = \<lparr>code = ''EUR'', symbol = ''E'', name = ''Euro''\<rparr>,
          isDark = False, loading = False, error = [], showCurrencyPicker = False\<rparr> = outcome"
    by simp
  show ?thesis
    by (rule C9_create_then_read_roundtrip [OF h1 h2 h3])
qed

section \<open>Properties of the edit screens\<close>

text \<open>
  C7, as the claim states it, fails: the edit screen of the route \<^verbatim>\<open>edit-budget/[id]\<close>
  (and likewise the task edit screen) starts no timer and never navigates back when
  the read by id fails; it stops loading and renders "Item not found".
\<close>

theorem C7_not_found_without_navigation_counterexample:
  "EditBudgetItem_fetchItem \<lparr>data = None, error = Some ''no rows returned''\<rparr>
     \<lparr>EditBudgetItem.id = ''7'', item = None, loading = True, isDark = False,
      showCurrencyPicker = False\<rparr>
   = Returns
       ([Request (SelectSingle ''budget_items'' ''7'')],
        \<lparr>EditBudgetItem.id = ''7'', item = None, loading = False, isDark = False,
         showCurrencyPicker = False\<rparr>)
   \<and> EditBudgetItem_view
       \<lparr>EditBudgetItem.id = ''7'', item = None, loading = False, isDark = False,
        showCurrencyPicker = False\<rparr>
     = TextOnly ''Item not found''"
  by (simp add: EditBudgetItem_fetchItem_def EditBudgetItem_view_def)

text \<open>
  C7, amended. Activation of each of the three edit screens sends exactly one read of
  the row by its id. On the budget edit screen with messages, when that read comes back
  with an error (the way a missing row is reported), the handler returns without an
  exception, having set the message "Failed to fetch item details" and started a timer
  that navigates back after 1500 milliseconds. On the task edit screen and on the edit
  screen of the route \<^verbatim>\<open>edit-budget/[id]\<close>, when that read comes back with an error or
  without a row, the handler returns without an exception, having set no message and
  started no timer and no navigation: the screen stops loading and, holding no row,
  renders the text "Task not found" or "Item not found".
\<close>

theorem C7_edit_activation_reads_once:
  "requests (fst (reached (EditBudgetScreen_fetchItem toString ra s1)))
     = [SelectSingle ''budget_items'' (EditBudgetScreen.id s1)]
   \<and> requests (fst (reached (fetchTask ta s2))) = [SelectSingle ''tasks'' (EditTask.id s2)]
   \<and> requests (fst (reached (EditBudgetItem_fetchItem a s3)))
     = [SelectSingle ''budget_items'' (EditBudgetItem.id s3)]
   \<and> (answer.error ra \<noteq> None \<longrightarrow>
        EditBudgetScreen_fetchItem toString ra s1
        = Returns
            ([Request (SelectSingle ''budget_items'' (EditBudgetScreen.id s1)),
              ConsoleError ''Error fetching item:'', SetTimeout RouterBack 1500],
             s1\<lparr>EditBudgetScreen.error := ''Failed to fetch item details''\<rparr>))
   \<and> (answer.error ta \<noteq> None \<or> answer.data ta = None \<longrightarrow>
        fetchTask ta s2
        = Returns
            ([Request (SelectSingle ''tasks'' (EditTask.id s2))],
             s2\<lparr>EditTask.loading := False\<rparr>)
        \<and> (EditTask.task s2 = None \<longrightarrow>
             EditTask_view (snd (reached (fetchTask ta s2))) = TextOnly ''Task not found''))
   \<and> (answer.error a \<noteq> None \<or> answer.data a = None \<longrightarrow>
        EditBudgetItem_fetchItem a s3
        = Returns
            ([Request (SelectSingle ''budget_items'' (EditBudgetItem.id s3))],
             s3\<lparr>EditBudgetItem.loading := False\<rparr>)
        \<and> (EditBudgetItem.item s3 = None \<longrightarrow>
             EditBudgetItem_view (snd (reached (EditBudgetItem_fetchItem a s3)))
             = TextOnly ''Item not found''))"
proof -
  have r1: "requests (fst (reached (EditBudgetScreen_fetchItem toString ra s1)))
     = [SelectSingle ''budget_items'' (EditBudgetScreen.id s1)]"
    by (simp add: EditBudgetScreen_fetchItem_def reached_def requests_simps Let_def
        split: option.split)
  have r2: "requests (fst (reached (fetchTask ta s2))) = [SelectSingle ''tasks'' (EditTask.id s2)]"
    by (simp add: fetchTask_def reached_def requests_simps)
  have r3: "requests (fst (reached (EditBudgetItem_fetchItem a s3)))
     = [SelectSingle ''budget_items'' (EditBudgetItem.id s3)]"
    by (simp add: EditBudgetItem_fetchItem_def reached_def requests_simps)
  have e1: "answer.error ra \<noteq> None \<longrightarrow>
        EditBudgetScreen_fetchItem toString ra s1
        = Returns
            ([Request (SelectSingle ''budget_items'' (EditBudgetScreen.id s1)),
              ConsoleError ''Error fetching item:'', SetTimeout RouterBack 1500],
             s1\<lparr>EditBudgetScreen.error := ''Failed to fetch item details''\<rparr>)"
    by (simp add: EditBudgetScreen_fetchItem_def Let_def)
  have e2: "answer.error ta \<noteq> None \<or> answer.data ta = None \<longrightarrow>
        fetchTask ta s2
        = Returns
            ([Request (SelectSingle ''tasks'' (EditTask.id s2))],
             s2\<lparr>EditTask.loading := False\<rparr>)
        \<and> (EditTask.task s2 = None \<longrightarrow>
             EditTask_view (snd (reached (fetchTask ta s2))) = TextOnly ''Task not found'')"
    by (auto simp: fetchTask_def reached_def EditTask_view_def)
  have e3: "answer.error a \<noteq> None \<or> answer.data a = None \<longrightarrow>
        EditBudgetItem_fetchItem a s3
        = Returns
            ([Request (SelectSingle ''budget_items'' (EditBudgetItem.id s3))],
             s3\<lparr>EditBudgetItem.loading := False\<rparr>)
        \<and> (EditBudgetItem.item s3 = None \<longrightarrow>
             EditBudgetItem_view (snd (reached (EditBudgetItem_fetchItem a s3)))
             = TextOnly ''Item not found'')"
    by (auto simp: EditBudgetItem_fetchItem_def reached_def EditBudgetItem_view_def)
  show ?thesis
    using r1 r2 r3 e1 e2 e3 by (intro conjI)
qed

theorem C7_edit_activation_witness:
  "EditBudgetScreen_fetchItem (\<lambda>n. ''0'') \<lparr>data = None, error = Some ''no rows returned''\<rparr>
     \<lparr>EditBudgetScreen.id = ''7'', isDark = False, title = [], amount = [], type = income,
      loading = False, error = [], success = []\<rparr>
   = Returns
       ([Request (SelectSingle ''budget_items'' ''7''), ConsoleError ''Error fetching item:'',
         SetTimeout RouterBack 1500],
        \<lparr>EditBudgetScreen.id = ''7'', isDark = False, title = [], amount = [], type = income,
         loading = False, error = ''Failed to fetch item details'', success = []\<rparr>)
   \<and> EditTask_view (snd (reached (fetchTask \<lparr>data = None, error = Some ''no rows returned''\<rparr>
       \<lparr>EditTask.id = ''9'', task = None, loading = True, isDark = False, category = [],
        categories = []\<rparr>)))
     = TextOnly ''Task not found''
   \<and> EditBudgetItem_view (snd (reached (EditBudgetItem_fetchItem \<lparr>data = None, error = None\<rparr>
       \<lparr>EditBudgetItem.id = ''7'', item = None, loading = True, isDark = False,
        showCurrencyPicker = False\<rparr>)))
     = TextOnly ''Item not found''"
proof -
  have w1: "EditBudgetScreen_fetchItem (\<lambda>n. ''0'') \<lparr>data = None, error = Some ''no rows returned''\<rparr>
     \<lparr>EditBudgetScreen.id = ''7'', isDark = False, title = [], amount = [], type = income,
      loading = False, error = [], success = []\<rparr>
   = Returns
       ([Request (SelectSingle ''budget_items'' ''7''), ConsoleError ''Error fetching item:'',
         SetTimeout RouterBack 1500],
        \<lparr>EditBudgetScreen.id = ''7'', isDark = False, title = [], amount = [], type = income,
         loading = False, error = ''Failed to fetch item details'', success = []\<rparr>)"
    using C7_edit_activation_reads_once
      [where ra = "\<lparr>data = None, error = Some ''no rows returned''\<rparr>"
         and toString = "\<lambda>n. ''0''"
         and ?s1.0 = "\<lparr>EditBudgetScreen.id = ''7'', isDark = False, title = [], amount = [],
                       type = income, loading = False, error = [], success = []\<rparr>",
       THEN conjunct2, THEN conjunct2, THEN conjunct2, THEN conjunct1]
    by simp
  have w2: "EditTask_view (snd (reached (fetchTask \<lparr>data = None, error = Some ''no rows returned''\<rparr>
       \<lparr>EditTask.id = ''9'', task = None, loading = True, isDark = False, category = [],
        categories = []\<rparr>)))
     = TextOnly ''Task not found''"
    using C7_edit_activation_reads_once
      [where ta = "\<lparr>data = None, error = Some ''no rows returned''\<rparr>"
         and ?s2.0 = "\<lparr>EditTask.id = ''9'', task = None, loading = True, isDark = False,
                       category = [], categories = []\<rparr>",
       THEN conjunct2, THEN conjunct2, THEN conjunct2, THEN conjunct2, THEN conjunct1]
    by (simp add: EditTask_view_def reached_def)
  have w3: "EditBudgetItem_view (snd (reached (EditBudgetItem_fetchItem \<lparr>data = None, error = None\<rparr>
       \<lparr>EditBudgetItem.id = ''7'', item = None, loading = True, isDark = False,
        showCurrencyPicker = False\<rparr>)))
     = TextOnly ''Item not found''"
    using C7_edit_activation_reads_once
      [where a = "\<lparr>data = None, error = None\<rparr>"
         and ?s3.0 = "\<lparr>EditBudgetItem.id = ''7'', item = None, loading = True, isDark = False,
                       showCurrencyPicker = False\<rparr>",
       THEN conjunct2, THEN conjunct2, THEN conjunct2, THEN conjunct2, THEN conjunct2]
    by (simp add: EditBudgetItem_view_def reached_def)
  show ?thesis using w1 w2 w3 by (intro conjI)
qed

lemma EditBudgetScreen_fetchItem_null_amount_throws:
  "EditBudgetScreen_fetchItem toString
     \<lparr>data = Some \<lparr>ItemRow.title = ''Lunch'', amount = None, type = outcome\<rparr>, error = None\<rparr>
     \<lparr>EditBudgetScreen.id = ''7'', isDark = False, title = [], amount = [], type = income,
      loading = False, error = [], success = []\<rparr>
   = Throws ''TypeError''
       ([Request (SelectSingle ''budget_items'' ''7'')],
        \<lparr>EditBudgetScreen.id = ''7'', isDark = False, title = ''Lunch'', amount = [],
         type = income, loading = False, error = [], success = []\<rparr>)"
  by (simp add: EditBudgetScreen_fetchItem_def)

text \<open>
  C8, as the claim states it, fails: Save on the task edit screen validates nothing,
  shows no message and navigates back at once. With an empty title it sends the
  update of the empty title and, when the update succeeds, navigates back immediately.
\<close>

theorem C8_save_without_validation_counterexample:
  "EditTask_handleSave None
     \<lparr>EditTask.id = ''9'',
      task = Some \<lparr>Task.id = ''9'', title = [], description = None,
                   created_at = ''2025-01-01T09:00:00Z'', completed = False, deadline = None,
                   category = None\<rparr>,
      loading = False, isDark = False, category = [], categories = []\<rparr>
   = ([Request (Update ''tasks''
         [(''title'', JStr []), (''completed'', JBool False), (''category'', JStr [])] ''9''),
       Navigate Back],
      \<lparr>EditTask.id = ''9'',
       task = Some \<lparr>Task.id = ''9'', title = [], description = None,
                    created_at = ''2025-01-01T09:00:00Z'', completed = False, deadline = None,
                    category = None\<rparr>,
       loading = False, isDark = False, category = [], categories = []\<rparr>)"
  by (simp add: EditTask_handleSave_def)

text \<open>
  C8, amended. Save on the budget edit screen with messages checks that the title and
  the amount text are not blank and that \<^verbatim>\<open>parseFloat\<close> reads the amount, and otherwise
  sets an error message and sends nothing; then it sends exactly one update by id; when
  the update succeeds it sets the message "Changes saved successfully" and starts a
  timer that navigates back after 1000 milliseconds, navigating nowhere before; when
  the update fails it sets the message "Failed to update item", starts no navigation
  and leaves the fields of the form as they were. Save on the task edit screen and on
  the edit screen of the route \<^verbatim>\<open>edit-budget/[id]\<close>, once the row is loaded, checks nothing
  and sends exactly one update by id of the values held, and shows no message in any
  case. When the update succeeds, the task screen navigates back at once; the budget
  screen writes the currency preference and then, if that write succeeded, navigates at
  once to the tabs, and if that write failed, logs it and does not navigate. When the
  update fails, both leave the state unchanged and do not navigate.
\<close>

theorem C8_save_per_edit_screen:
  "(\<not> truthyStr (trim (EditBudgetScreen.title s1)) \<or> \<not> truthyStr (trim (EditBudgetScreen.amount s1)) \<longrightarrow>
      EditBudgetScreen_handleSave e s1
      = ([SetTimeout ClearError 3000], s1\<lparr>EditBudgetScreen.error := ''Please fill in all fields''\<rparr>))
   \<and> (truthyStr (trim (EditBudgetScreen.title s1)) \<and> truthyStr (trim (EditBudgetScreen.amount s1))
        \<and> parseFloat (EditBudgetScreen.amount s1) = NaN \<longrightarrow>
      EditBudgetScreen_handleSave e s1
      = ([SetTimeout ClearError 3000], s1\<lparr>EditBudgetScreen.error := ''Please enter a valid amount''\<rparr>))
   \<and> (truthyStr (trim (EditBudgetScreen.title s1)) \<and> truthyStr (trim (EditBudgetScreen.amount s1))
        \<and> parseFloat (EditBudgetScreen.amount s1) \<noteq> NaN \<longrightarrow>
      EditBudgetScreen_handleSave None s1
      = ([Request (Update ''budget_items''
            [(''title'', JStr (EditBudgetScreen.title s1)),
             (''amount'', JNum (parseFloat (EditBudgetScreen.amount s1))),
             (''type'', JStr (typeStr (EditBudgetScreen.type s1)))]
            (EditBudgetScreen.id s1)),
          SetTimeout RouterBack 1000],
         s1\<lparr>EditBudgetScreen.error := [], EditBudgetScreen.loading := False,
            EditBudgetScreen.success := ''Changes saved successfully''\<rparr>)
      \<and> EditBudgetScreen_handleSave (Some m) s1
      = ([Request (Update ''budget_items''
            [(''title'', JStr (EditBudgetScreen.title s1)),
             (''amount'', JNum (parseFloat (EditBudgetScreen.amount s1))),
             (''type'', JStr (typeStr (EditBudgetScreen.type s1)))]
            (EditBudgetScreen.id s1)),
          ConsoleError ''Error updating item:'', SetTimeout ClearError 3000],
         s1\<lparr>EditBudgetScreen.error := ''Failed to update item'',
            EditBudgetScreen.loading := False\<rparr>))
   \<and> (EditTask.task s2 = Some t \<longrightarrow>
      EditTask_handleSave None s2
      = ([Request (Update ''tasks''
            [(''title'', JStr (Task.title t)), (''completed'', JBool (Task.completed t)),
             (''category'', JStr (EditTask.category s2))]
            (EditTask.id s2)),
          Navigate Back], s2)
      \<and> EditTask_handleSave (Some m) s2
      = ([Request (Update ''tasks''
            [(''title'', JStr (Task.title t)), (''completed'', JBool (Task.completed t)),
             (''category'', JStr (EditTask.category s2))]
            (EditTask.id s2))], s2))
   \<and> (EditBudgetItem.item s3 = Some it \<longrightarrow>
      EditBudgetItem_handleSave None True s3
      = ([Request (Update ''budget_items''
            [(''title'', JStr (BudgetItem.title it)), (''amount'', JNum (BudgetItem.amount it)),
             (''type'', JStr (typeStr (BudgetItem.type it))),
             (''currency'', JStr (BudgetItem.currency it))]
            (EditBudgetItem.id s3)),
          SetItem ''currencyPreference'' (BudgetItem.currency it),
          Navigate (Replace ''/(tabs)'')], s3)
      \<and> EditBudgetItem_handleSave None False s3
      = ([Request (Update ''budget_items''
            [(''title'', JStr (BudgetItem.title it)), (''amount'', JNum (BudgetItem.amount it)),
             (''type'', JStr (typeStr (BudgetItem.type it))),
             (''currency'', JStr (BudgetItem.currency it))]
            (EditBudgetItem.id s3)),
          SetItem ''currencyPreference'' (BudgetItem.currency it),
          ConsoleError ''Failed to save budget item:''], s3)
      \<and> EditBudgetItem_handleSave (Some m) stored s3
      = ([Request (Update ''budget_items''
            [(''title'', JStr (BudgetItem.title it)), (''amount'', JNum (BudgetItem.amount it)),
             (''type'', JStr (typeStr (BudgetItem.type it))),
             (''currency'', JStr (BudgetItem.currency it))]
            (EditBudgetItem.id s3)),
          ConsoleError ''Error saving budget item:''], s3))"
proof -
  have v1: "\<not> truthyStr (trim (EditBudgetScreen.title s1)) \<or> \<not> truthyStr (trim (EditBudgetScreen.amount s1)) \<longrightarrow>
      EditBudgetScreen_handleSave e s1
      = ([SetTimeout ClearError 3000], s1\<lparr>EditBudgetScreen.error := ''Please fill in all fields''\<rparr>)"
    by (auto simp: EditBudgetScreen_handleSave_def)
  have v2: "truthyStr (trim (EditBudgetScreen.title s1)) \<and> truthyStr (trim (EditBudgetScreen.amount s1))
        \<and> parseFloat (EditBudgetScreen.amount s1) = NaN \<longrightarrow>
      EditBudgetScreen_handleSave e s1
      = ([SetTimeout ClearError 3000], s1\<lparr>EditBudgetScreen.error := ''Please enter a valid amount''\<rparr>)"
    by (simp add: EditBudgetScreen_handleSave_def isNaN_def Let_def)
  have v3: "truthyStr (trim (EditBudgetScreen.title s1)) \<and> truthyStr (trim (EditBudgetScreen.amount s1))
        \<and> parseFloat (EditBudgetScreen.amount s1) \<noteq> NaN \<longrightarrow>
      EditBudgetScreen_handleSave None s1
      = ([Request (Update ''budget_items''
            [(''title'', JStr (EditBudgetScreen.title s1)),
             (''amount'', JNum (parseFloat (EditBudgetScreen.amount s1))),
             (''type'', JStr (typeStr (EditBudgetScreen.type s1)))]
            (EditBudgetScreen.id s1)),
          SetTimeout RouterBack 1000],
         s1\<lparr>EditBudgetScreen.error := [], EditBudgetScreen.loading := False,
            EditBudgetScreen.success := ''Changes saved successfully''\<rparr>)
      \<and> EditBudgetScreen_handleSave (Some m) s1
      = ([Request (Update ''budget_items''
            [(''title'', JStr (EditBudgetScreen.title s1)),
             (''amount'', JNum (parseFloat (EditBudgetScreen.amount s1))),
             (''type'', JStr (typeStr (EditBudgetScreen.type s1)))]
            (EditBudgetScreen.id s1)),
          ConsoleError ''Error updating item:'', SetTimeout ClearError 3000],
         s1\<lparr>EditBudgetScreen.error := ''Failed to update item'',
            EditBudgetScreen.loading := False\<rparr>)"
    by (simp add: EditBudgetScreen_handleSave_def isNaN_def Let_def)
  have v4: "EditTask.task s2 = Some t \<longrightarrow>
      EditTask_handleSave None s2
      = ([Request (Update ''tasks''
            [(''title'', JStr (Task.title t)), (''completed'', JBool (Task.completed t)),
             (''category'', JStr (EditTask.category s2))]
            (EditTask.id s2)),
          Navigate Back], s2)
      \<and> EditTask_handleSave (Some m) s2
      = ([Request (Update ''tasks''
            [(''title'', JStr (Task.title t)), (''completed'', JBool (Task.completed t)),
             (''category'', JStr (EditTask.category s2))]
            (EditTask.id s2))], s2)"
    by (simp add: EditTask_handleSave_def Let_def)
  have v5: "EditBudgetItem.item s3 = Some it \<longrightarrow>
      EditBudgetItem_handleSave None True s3
      = ([Request (Update ''budget_items''
            [(''title'', JStr (BudgetItem.title it)), (''amount'', JNum (BudgetItem.amount it)),
             (''type'', JStr (typeStr (BudgetItem.type it))),
             (''currency'', JStr (BudgetItem.currency it))]
            (EditBudgetItem.id s3)),
          SetItem ''currencyPreference'' (BudgetItem.currency it),
          Navigate (Replace ''/(tabs)'')], s3)
      \<and> EditBudgetItem_handleSave None False s3
      = ([Request (Update ''budget_items''
            [(''title'', JStr (BudgetItem.title it)), (''amount'', JNum (BudgetItem.amount it)),
             (''type'', JStr (typeStr (BudgetItem.type it))),
             (''currency'', JStr (BudgetItem.currency it))]
            (EditBudgetItem.id s3)),
          SetItem ''currencyPreference'' (BudgetItem.currency it),
          ConsoleError ''Failed to save budget item:''], s3)
      \<and> EditBudgetItem_handleSave (Some m) stored s3
      = ([Request (Update ''budget_items''
            [(''title'', JStr (BudgetItem.title it)), (''amount'', JNum (BudgetItem.amount it)),
             (''type'', JStr (typeStr (BudgetItem.type it))),
             (''currency'', JStr (BudgetItem.currency it))]
            (EditBudgetItem.id s3)),
          ConsoleError ''Error saving budget item:''], s3)"
    by (simp add: EditBudgetItem_handleSave_def Let_def)
  show ?thesis
    using v1 v2 v3 v4 v5 by (intro conjI)
qed

theorem C8_save_witness:
  "EditBudgetScreen_handleSave None
     \<lparr>EditBudgetScreen.id = ''7'', isDark = False, title = '' '', amount = ''5'', type = income,
      loading = False, error = [], success = []\<rparr>
   = ([SetTimeout ClearError 3000],
      \<lparr>EditBudgetScreen.id = ''7'', isDark = False, title = '' '', amount = ''5'', type = income,
       loading = False, error = ''Please fill in all fields'', success = []\<rparr>)
   \<and> EditBudgetScreen_handleSave None
     \<lparr>EditBudgetScreen.id = ''7'', isDark = False, title = ''Lunch'', amount = ''abc'',
      type = income, loading = False, error = [], success = []\<rparr>
   = ([SetTimeout ClearError 3000],
      \<lparr>EditBudgetScreen.id = ''7'', isDark = False, title = ''Lunch'', amount = ''abc'',
       type = income, loading = False, error = ''Please enter a valid amount'', success = []\<rparr>)
   \<and> EditBudgetScreen_handleSave None
     \<lparr>EditBudgetScreen.id = ''7'', isDark = False, title = ''Lunch'', amount = ''42.50'',
      type = outcome, loading = False, error = [], success = []\<rparr>
   = ([Request (Update ''budget_items''
         [(''title'', JStr ''Lunch''), (''amount'', JNum (Fin (85 / 2))), (''type'', JStr ''outcome'')]
         ''7''),
       SetTimeout RouterBack 1000],
      \<lparr>EditBudgetScreen.id = ''7'', isDark = False, title = ''Lunch'', amount = ''42.50'',
       type = outcome, loading = False, error = [], success = ''Changes saved successfully''\<rparr>)
   \<and> EditTask_handleSave (Some ''network error'')
     \<lparr>EditTask.id = ''9'',
      task = Some \<lparr>Task.id = ''9'', title = ''Buy milk'', description = None,
                   created_at = ''2025-01-01T09:00:00Z'', completed = True, deadline = None,
                   category = None\<rparr>,
      loading = False, isDark = False, category = ''Work'', categories = []\<rparr>
   = ([Request (Update ''tasks''
         [(''title'', JStr ''Buy milk''), (''completed'', JBool True), (''category'', JStr ''Work'')]
         ''9'')],
      \<lparr>EditTask.id = ''9'',
       task = Some \<lparr>Task.id = ''9'', title = ''Buy milk'', description = None,
                    created_at = ''2025-01-01T09:00:00Z'', completed = True, deadline = None,
                    category = None\<rparr>,
       loading = False, isDark = False, category = ''Work'', categories = []\<rparr>)
   \<and> EditBudgetItem_handleSave None True
     \<lparr>EditBudgetItem.id = ''7'',
      item = Some \<lparr>BudgetItem.id = ''7'', title = ''Lunch'', amount = Fin 0,
                   created_at = ''2025-01-01'', type = outcome, currency = ''USD''\<rparr>,
      loading = False, isDark = False, showCurrencyPicker = False\<rparr>
   = ([Request (Update ''budget_items''
         [(''title'', JStr ''Lunch''), (''amount'', JNum (Fin 0)), (''type'', JStr ''outcome''),
          (''currency'', JStr ''USD'')] ''7''),
       SetItem ''currencyPreference'' ''USD'', Navigate (Replace ''/(tabs)'')],
      \<lparr>EditBudgetItem.id = ''7'',
       item = Some \<lparr>BudgetItem.id = ''7'', title = ''Lunch'', amount = Fin 0,
                    created_at = ''2025-01-01'', type = outcome, currency = ''USD''\<rparr>,
       loading = False, isDark = False, showCurrencyPicker = False\<rparr>)
   \<and> EditBudgetItem_handleSave None False
     \<lparr>EditBudgetItem.id = ''7'',
      item = Some \<lparr>BudgetItem.id = ''7'', title = ''Lunch'', amount = Fin 0,
                   created_at = ''2025-01-01'', type = outcome, currency = ''USD''\<rparr>,
      loading = False, isDark = False, showCurrencyPicker = False\<rparr>
   = ([Request (Update ''budget_items''
         [(''title'', JStr ''Lunch''), (''amount'', JNum (Fin 0)), (''type'', JStr ''outcome''),
          (''currency'', JStr ''USD'')] ''7''),
       SetItem ''currencyPreference'' ''USD'', ConsoleError ''Failed to save budget item:''],
      \<lparr>EditBudgetItem.id = ''7'',
       item = Some \<lparr>BudgetItem.id = ''7'', title = ''Lunch'', amount = Fin 0,
                    created_at = ''2025-01-01'', type = outcome, currency = ''USD''\<rparr>,
       loading = False, isDark = False, showCurrencyPicker = False\<rparr>)"
proof -
  have strs: "\<not> truthyStr (trim '' '')" "truthyStr (trim ''Lunch'')" "truthyStr (trim ''5'')"
    "truthyStr (trim ''abc'')" "truthyStr (trim ''42.50'')"
    and nums: "parseFloat ''abc'' = NaN" "parseFloat ''42.50'' = Fin (85 / 2)"
    by (simp_all add: js_eval)
  have w1: "EditBudgetScreen_handleSave None
     \<lparr>EditBudgetScreen.id = ''7'', isDark = False, title = '' '', amount = ''5'', type = income,
      loading = False, error = [], success = []\<rparr>
   = ([SetTimeout ClearError 3000],
      \<lparr>EditBudgetScreen.id = ''7'', isDark = False, title = '' '', amount = ''5'', type = income,
       loading = False, error = ''Please fill in all fields'', success = []\<rparr>)"
    using strs
      C8_save_per_edit_screen
        [where ?s1.0 = "\<lparr>EditBudgetScreen.id = ''7'', isDark = False, title = '' '', amount = ''5'',
                         type = income, loading = False, error = [], success = []\<rparr>"
           and e = None,
         THEN conjunct1]
    by simp
  have w2: "EditBudgetScreen_handleSave None
     \<lparr>EditBudgetScreen.id = ''7'', isDark = False, title = ''Lunch'', amount = ''abc'',
      type = income, loading = False, error = [], success = []\<rparr>
   = ([SetTimeout ClearError 3000],
      \<lparr>EditBudgetScreen.id = ''7'', isDark = False, title = ''Lunch'', amount = ''abc'',
       type = income, loading = False, error = ''Please enter a valid amount'', success = []\<rparr>)"
    using strs nums
      C8_save_per_edit_screen
        [where ?s1.0 = "\<lparr>EditBudgetScreen.id = ''7'', isDark = False, title = ''Lunch'',
                         amount = ''abc'', type = income, loading = False, error = [],
                         success = []\<rparr>"
           and e = None,
         THEN conjunct2, THEN conjunct1]
    by simp
  have w3: "EditBudgetScreen_handleSave None
     \<lparr>EditBudgetScreen.id = ''7'', isDark = False, title = ''Lunch'', amount = ''42.50'',
      type = outcome, loading = False, error = [], success = []\<rparr>
   = ([Request (Update ''budget_items''
         [(''title'', JStr ''Lunch''), (''amount'', JNum (Fin (85 / 2))), (''type'', JStr ''outcome'')]
         ''7''),
       SetTimeout RouterBack 1000],
      \<lparr>EditBudgetScreen.id = ''7'', isDark = False, title = ''Lunch'', amount = ''42.50'',
       type = outcome, loading = False, error = [], success = ''Changes saved successfully''\<rparr>)"
    using strs nums
      C8_save_per_edit_screen
        [where ?s1.0 = "\<lparr>EditBudgetScreen.id = ''7'', isDark = False, title = ''Lunch'',
                         amount = ''42.50'', type = outcome, loading = False, error = [],
                         success = []\<rparr>",
         THEN conjunct2, THEN conjunct2, THEN conjunct1]
    by (simp add: typeStr_def)
  have w4: "EditTask_handleSave (Some ''network error'')
     \<lparr>EditTask.id = ''9'',
      task = Some \<lparr>Task.id = ''9'', title = ''Buy milk'', description = None,
                   created_at = ''2025-01-01T09:00:00Z'', completed = True, deadline = None,
                   category = None\<rparr>,
      loading = False, isDark = False, category = ''Work'', categories = []\<rparr>
   = ([Request (Update ''tasks''
         [(''title'', JStr ''Buy milk''), (''completed'', JBool True), (''category'', JStr ''Work'')]
         ''9'')],
      \<lparr>EditTask.id = ''9'',
       task = Some \<lparr>Task.id = ''9'', title = ''Buy milk'', description = None,
                    created_at = ''2025-01-01T09:00:00Z'', completed = True, deadline = None,
                    category = None\<rparr>,
       loading = False, isDark = False, category = ''Work'', categories = []\<rparr>)"
    using C8_save_per_edit_screen
        [where ?s2.0 = "\<lparr>EditTask.id = ''9'',
            task = Some \<lparr>Task.id = ''9'', title = ''Buy milk'', description = None,
                         created_at = ''2025-01-01T09:00:00Z'', completed = True, deadline = None,
                         category = None\<rparr>,
            loading = False, isDark = False, category = ''Work'', categories = []\<rparr>"
           and t = "\<lparr>Task.id = ''9'', title = ''Buy milk'', description = None,
                     created_at = ''2025-01-01T09:00:00Z'', completed = True, deadline = None,
                     category = None\<rparr>"
           and m = "''network error''",
         THEN conjunct2, THEN conjunct2, THEN conjunct2, THEN conjunct1]
    by simp
  have w5: "EditBudgetItem_handleSave None True
     \<lparr>EditBudgetItem.id = ''7'',
      item = Some \<lparr>BudgetItem.id = ''7'', title = ''Lunch'', amount = Fin 0,
                   created_at = ''2025-01-01'', type = outcome, currency = ''USD''\<rparr>,
      loading = False, isDark = False, showCurrencyPicker = False\<rparr>
   = ([Request (Update ''budget_items''
         [(''title'', JStr ''Lunch''), (''amount'', JNum (Fin 0)), (''type'', JStr ''outcome''),
          (''currency'', JStr ''USD'')] ''7''),
       SetItem ''currencyPreference'' ''USD'', Navigate (Replace ''/(tabs)'')],
      \<lparr>EditBudgetItem.id = ''7'',
       item = Some \<lparr>BudgetItem.id = ''7'', title = ''Lunch'', amount = Fin 0,
                    created_at = ''2025-01-01'', type = outcome, currency = ''USD''\<rparr>,
       loading = False, isDark = False, showCurrencyPicker = False\<rparr>)"
    using C8_save_per_edit_screen
        [where ?s3.0 = "\<lparr>EditBudgetItem.id = ''7'',
            item = Some \<lparr>BudgetItem.id = ''7'', title = ''Lunch'', amount = Fin 0,
                         created_at = ''2025-01-01'', type = outcome, currency = ''USD''\<rparr>,
            loading = False, isDark = False, showCurrencyPicker = False\<rparr>"
           and it = "\<lparr>BudgetItem.id = ''7'', title = ''Lunch'', amount = Fin 0,
                      created_at = ''2025-01-01'', type = outcome, currency = ''USD''\<rparr>",
         THEN conjunct2, THEN conjunct2, THEN conjunct2, THEN conjunct2]
    by (simp add: typeStr_def)
  have w6: "EditBudgetItem_handleSave None False
     \<lparr>EditBudgetItem.id = ''7'',
      item = Some \<lparr>BudgetItem.id = ''7'', title = ''Lunch'', amount = Fin 0,
                   created_at = ''2025-01-01'', type = outcome, currency = ''USD''\<rparr>,
      loading = False, isDark = False, showCurrencyPicker = False\<rparr>
   = ([Request (Update ''budget_items''
         [(''title'', JStr ''Lunch''), (''amount'', JNum (Fin 0)), (''type'', JStr ''outcome''),
          (''currency'', JStr ''USD'')] ''7''),
       SetItem ''currencyPreference'' ''USD'', ConsoleError ''Failed to save budget item:''],
      \<lparr>EditBudgetItem.id = ''7'',
       item = Some \<lparr>BudgetItem.id = ''7'', title = ''Lunch'', amount = Fin 0,
                    created_at = ''2025-01-01'', type = outcome, currency = ''USD''\<rparr>,
       loading = False, isDark = False, showCurrencyPicker = False\<rparr>)"
    using C8_save_per_edit_screen
        [where ?s3.0 = "\<lparr>EditBudgetItem.id = ''7'',
            item = Some \<lparr>BudgetItem.id = ''7'', title = ''Lunch'', amount = Fin 0,
                         created_at = ''2025-01-01'', type = outcome, currency = ''USD''\<rparr>,
            loading = False, isDark = False, showCurrencyPicker = False\<rparr>"
           and it = "\<lparr>BudgetItem.id = ''7'', title = ''Lunch'', amount = Fin 0,
                      created_at = ''2025-01-01'', type = outcome, currency = ''USD''\<rparr>",
         THEN conjunct2, THEN conjunct2, THEN conjunct2, THEN conjunct2]
    by (simp add: typeStr_def)
  show ?thesis using w1 w2 w3 w4 w5 w6 by (intro conjI)
qed

text \<open>
  C10. On the edit screen of the route \<^verbatim>\<open>edit-budget/[id]\<close>, typing the text \<open>t\<close> into the
  amount input makes the amount held \<^verbatim>\<open>parseFloat(t)\<close> when that is a number other than
  zero, and \<open>0\<close> otherwise, so \<open>0\<close> for every text that \<^verbatim>\<open>parseFloat\<close> does not read; the other
  fields of the item stay. Save then sends the update with that amount, whatever the
  text was and whatever the answers are: nothing on the way checks it.
\<close>

theorem C10_amount_input_defaults_to_zero:
  "BudgetItem.amount (onChangeText t it)
     = (if truthyNum (parseFloat t) then parseFloat t else Fin 0)
   \<and> (parseFloat t = NaN \<longrightarrow> BudgetItem.amount (onChangeText t it) = Fin 0)
   \<and> onChangeText t it = it\<lparr>BudgetItem.amount := BudgetItem.amount (onChangeText t it)\<rparr>
   \<and> requests (fst (EditBudgetItem_handleSave e stored
         (s\<lparr>EditBudgetItem.item := Some (onChangeText t it)\<rparr>)))
     = [Update ''budget_items''
          [(''title'', JStr (BudgetItem.title it)),
           (''amount'', JNum (if truthyNum (parseFloat t) then parseFloat t else Fin 0)),
           (''type'', JStr (typeStr (BudgetItem.type it))),
           (''currency'', JStr (BudgetItem.currency it))]
          (EditBudgetItem.id s)]"
proof -
  have a: "BudgetItem.amount (onChangeText t it)
     = (if truthyNum (parseFloat t) then parseFloat t else Fin 0)"
    by (simp add: onChangeText_def)
  have b: "parseFloat t = NaN \<longrightarrow> BudgetItem.amount (onChangeText t it) = Fin 0"
    by (simp add: onChangeText_def truthyNum_def)
  have c: "onChangeText t it = it\<lparr>BudgetItem.amount := BudgetItem.amount (onChangeText t it)\<rparr>"
    by (simp add: onChangeText_def)
  have d: "requests (fst (EditBudgetItem_handleSave e stored
         (s\<lparr>EditBudgetItem.item := Some (onChangeText t it)\<rparr>)))
     = [Update ''budget_items''
          [(''title'', JStr (BudgetItem.title it)),
           (''amount'', JNum (if truthyNum (parseFloat t) then parseFloat t else Fin 0)),
           (''type'', JStr (typeStr (BudgetItem.type it))),
           (''currency'', JStr (BudgetItem.currency it))]
          (EditBudgetItem.id s)]"
    by (cases e; cases stored)
      (simp_all add: EditBudgetItem_handleSave_def onChangeText_def requests_simps Let_def)
  show ?thesis
    using a b c d by (intro conjI)
qed

theorem C10_amount_input_witness:
  "parseFloat ''abc'' = NaN
   \<and> BudgetItem.amount (onChangeText ''abc''
        \<lparr>BudgetItem.id = ''7'', title = ''Lunch'', amount = Fin 12, created_at = ''2025-01-01'',
         type = outcome, currency = ''USD''\<rparr>) = Fin 0
   \<and> requests (fst (EditBudgetItem_handleSave None True
        (\<lparr>EditBudgetItem.id = ''7'',
          item = Some \<lparr>BudgetItem.id = ''7'', title = ''Lunch'', amount = Fin 12,
                       created_at = ''2025-01-01'', type = outcome, currency = ''USD''\<rparr>,
          loading = False, isDark = False, showCurrencyPicker = False\<rparr>
         \<lparr>EditBudgetItem.item := Some (onChangeText ''abc''
            \<lparr>BudgetItem.id = ''7'', title = ''Lunch'', amount = Fin 12, created_at = ''2025-01-01'',
             type = outcome, currency = ''USD''\<rparr>)\<rparr>)))
     = [Update ''budget_items''
          [(''title'', JStr ''Lunch''), (''amount'', JNum (Fin 0)), (''type'', JStr ''outcome''),
           (''currency'', JStr ''USD'')] ''7'']"
proof -
  have n: "parseFloat ''abc'' = NaN"
    by (simp add: js_eval)
  note th = C10_amount_input_defaults_to_zero
    [where t = "''abc''"
       and it = "\<lparr>BudgetItem.id = ''7'', title = ''Lunch'', amount = Fin 12,
                  created_at = ''2025-01-01'', type = outcome, currency = ''USD''\<rparr>"
       and e = None and stored = True
       and s = "\<lparr>EditBudgetItem.id = ''7'',
          item = Some \<lparr>BudgetItem.id = ''7'', title = ''Lunch'', amount = Fin 12,
                       created_at = ''2025-01-01'', type = outcome, currency = ''USD''\<rparr>,
          loading = False, isDark = False, showCurrencyPicker = False\<rparr>"]
  have z: "BudgetItem.amount (onChangeText ''abc''
        \<lparr>BudgetItem.id = ''7'', title = ''Lunch'', amount = Fin 12, created_at = ''2025-01-01'',
         type = outcome, currency = ''USD''\<rparr>) = Fin 0"
    using th [THEN conjunct2, THEN conjunct1] n by simp
  have r: "requests (fst (EditBudgetItem_handleSave None True
        (\<lparr>EditBudgetItem.id = ''7'',
          item = Some \<lparr>BudgetItem.id = ''7'', title = ''Lunch'', amount = Fin 12,
                       created_at = ''2025-01-01'', type = outcome, currency = ''USD''\<rparr>,
          loading = False, isDark = False, showCurrencyPicker = False\<rparr>
         \<lparr>EditBudgetItem.item := Some (onChangeText ''abc''
            \<lparr>BudgetItem.id = ''7'', title = ''Lunch'', amount = Fin 12, created_at = ''2025-01-01'',
             type = outcome, currency = ''USD''\<rparr>)\<rparr>)))
     = [Update ''budget_items''
          [(''title'', JStr ''Lunch''), (''amount'', JNum (Fin 0)), (''type'', JStr ''outcome''),
           (''currency'', JStr ''USD'')] ''7'']"
    using th [THEN conjunct2, THEN conjunct2, THEN conjunct2] n
    by (simp add: truthyNum_def typeStr_def)
  show ?thesis using n z r by (intro conjI)
qed

end
